theory Spec2Isabelle
  imports Main
begin

section \<open>Errors, results and formatting\<close>

text \<open>
  The reconcilers are Go methods that talk to the cluster through a client and return
  \<^verbatim>\<open>(ctrl.Result, error)\<close>. Errors are values here: an API status error carries its
  reason (what \<^verbatim>\<open>errors.IsNotFound\<close> and \<^verbatim>\<open>errors.IsConflict\<close> inspect) and its text
  (what \<^verbatim>\<open>%v\<close> prints).
\<close>

datatype StatusReason =
  StatusReasonNotFound | StatusReasonConflict | StatusReasonAlreadyExists | StatusReasonUnknown

datatype error =
  StatusError StatusReason string
| AlreadyOwnedError string
| GenericError string

fun IsNotFound :: "error \<Rightarrow> bool" where
  "IsNotFound (StatusError r m) = (r = StatusReasonNotFound)"
| "IsNotFound (AlreadyOwnedError m) = False"
| "IsNotFound (GenericError m) = False"

fun IsConflict :: "error \<Rightarrow> bool" where
  "IsConflict (StatusError r m) = (r = StatusReasonConflict)"
| "IsConflict (AlreadyOwnedError m) = False"
| "IsConflict (GenericError m) = False"

fun errorString :: "error \<Rightarrow> string" where
  "errorString (StatusError r m) = m"
| "errorString (AlreadyOwnedError m) = m"
| "errorString (GenericError m) = m"

text \<open>\<^verbatim>\<open>ctrl.Result\<close>; \<^verbatim>\<open>RequeueAfter\<close> is a \<^verbatim>\<open>time.Duration\<close>, a count of nanoseconds.\<close>

record Result =
  Requeue :: bool
  RequeueAfter :: int

definition emptyResult :: Result where
  "emptyResult = \<lparr>Requeue = False, RequeueAfter = 0\<rparr>"

text \<open>The verb \<^verbatim>\<open>%d\<close> of \<^verbatim>\<open>fmt.Sprintf\<close>: decimal digits, with a sign for negative numbers.\<close>

fun showNat :: "nat \<Rightarrow> string" where
  "showNat n = (if n < 10 then [''0123456789'' ! n]
                else showNat (n div 10) @ [''0123456789'' ! (n mod 10)])"

declare showNat.simps [simp del]

definition showInt :: "int \<Rightarrow> string" where
  "showInt i = (if i < 0 then CHR ''-'' # showNat (nat (- i)) else showNat (nat i))"

text \<open>Reading a Go \<^verbatim>\<open>map[string]string\<close> at a missing key gives the empty string.\<close>

definition mapIndex :: "(string \<rightharpoonup> string) \<Rightarrow> string \<Rightarrow> string" where
  "mapIndex m k = (case m k of None \<Rightarrow> [] | Some v \<Rightarrow> v)"

section \<open>Object metadata and conditions\<close>

datatype Kind =
  KProject | KApplication | KTritonServer
| KNamespace | KResourceQuota | KLimitRange | KDeployment | KService

record OwnerReference =
  refKind :: Kind
  refName :: string
  refController :: bool

text \<open>
  \<^verbatim>\<open>metav1.ObjectMeta\<close>, embedded in every object. A deletion timestamp that is not set
  is \<open>None\<close>; labels are a Go map, where \<^verbatim>\<open>nil\<close> and the empty map read alike.
\<close>

record ObjectMeta =
  Name :: string
  Namespace :: string
  Labels :: "string \<rightharpoonup> string"
  Annotations :: "string \<rightharpoonup> string"
  Finalizers :: "string list"
  DeletionTimestamp :: "nat option"
  OwnerReferences :: "OwnerReference list"

text \<open>Every object of the cluster is its metadata, a spec and a status.\<close>

record ('spec, 'status) Resource = ObjectMeta +
  Spec :: 'spec
  Status :: 'status

type_synonym ObjectKey = "string \<times> string"

definition objKey :: "'m ObjectMeta_scheme \<Rightarrow> ObjectKey" where
  "objKey ob = (Namespace ob, Name ob)"

definition IsZero :: "nat option \<Rightarrow> bool" where
  "IsZero t = (case t of None \<Rightarrow> True | Some n \<Rightarrow> n = 0)"

datatype ConditionStatus = ConditionTrue | ConditionFalse | ConditionUnknown

record Condition =
  condType :: string
  condStatus :: ConditionStatus
  condReason :: string
  condMessage :: string
  LastTransitionTime :: nat

text \<open>
  \<^verbatim>\<open>meta.SetStatusCondition\<close> of apimachinery: a condition of a new type is appended; an
  existing one (the first of that type) takes the new status, reason and message, and
  the new transition time only when the status changes.
\<close>

definition FindStatusCondition :: "Condition list \<Rightarrow> string \<Rightarrow> Condition option" where
  "FindStatusCondition conditions t = find (\<lambda>c. condType c = t) conditions"

definition mergeCondition :: "Condition \<Rightarrow> Condition \<Rightarrow> Condition" where
  "mergeCondition existing new =
     existing\<lparr>condStatus := condStatus new,
              condReason := condReason new,
              condMessage := condMessage new,
              LastTransitionTime :=
                (if condStatus existing \<noteq> condStatus new then LastTransitionTime new
                 else LastTransitionTime existing)\<rparr>"

fun updateFirst :: "Condition \<Rightarrow> Condition list \<Rightarrow> Condition list" where
  "updateFirst new [] = []"
| "updateFirst new (c # cs) =
     (if condType c = condType new then mergeCondition c new # cs
      else c # updateFirst new cs)"

definition SetStatusCondition :: "Condition list \<Rightarrow> Condition \<Rightarrow> Condition list" where
  "SetStatusCondition conditions newCondition =
     (case FindStatusCondition conditions (condType newCondition) of
        None \<Rightarrow> conditions @ [newCondition]
      | Some existing \<Rightarrow> updateFirst newCondition conditions)"

text \<open>The finalizer helpers of \<^verbatim>\<open>controllerutil\<close>.\<close>

definition ContainsFinalizer :: "'m ObjectMeta_scheme \<Rightarrow> string \<Rightarrow> bool" where
  "ContainsFinalizer ob finalizer = (finalizer \<in> set (Finalizers ob))"

definition AddFinalizer :: "'m ObjectMeta_scheme \<Rightarrow> string \<Rightarrow> 'm ObjectMeta_scheme" where
  "AddFinalizer ob finalizer =
     (if finalizer \<in> set (Finalizers ob) then ob
      else ob\<lparr>Finalizers := Finalizers ob @ [finalizer]\<rparr>)"

definition RemoveFinalizer :: "'m ObjectMeta_scheme \<Rightarrow> string \<Rightarrow> 'm ObjectMeta_scheme" where
  "RemoveFinalizer ob finalizer =
     ob\<lparr>Finalizers := filter (\<lambda>f. f \<noteq> finalizer) (Finalizers ob)\<rparr>"

section \<open>The three custom resources (api/v1alpha1)\<close>

text \<open>
  Field names follow the Go structs; where two structs share a field name the later one
  carries a prefix. \<^verbatim>\<open>Phase\<close> and \<^verbatim>\<open>Conditions\<close> occur in all three status structs and
  are declared once. A phase is a Go string type, so that the unset phase is the empty
  string. A Go map that the code ranges over is an association list, in the order of
  the iteration. Fields that no reconciler reads (\<^verbatim>\<open>ModelRegistry\<close>, \<^verbatim>\<open>PythonBackend\<close>)
  are left out.
\<close>

type_synonym ResourceList = "(string \<times> string) list"

record LimitRangeItem =
  limitType :: string
  limitMax :: ResourceList
  limitMin :: ResourceList
  limitDefault :: ResourceList
  limitDefaultRequest :: ResourceList

record LimitRangeSpec =
  rangeLimits :: "LimitRangeItem list"

record ResourceQuotaSpec =
  quotaLimits :: ResourceList
  quotaRequests :: ResourceList

record EnvironmentSpec =
  envNamespace :: string
  envDescription :: string
  envLimitRange :: "LimitRangeSpec option"
  envResourceQuota :: "ResourceQuotaSpec option"

record KalypsoProjectSpec =
  DisplayName :: string
  Owner :: string
  Environments :: "(string \<times> EnvironmentSpec) list"

record CommonStatus =
  Phase :: string
  Conditions :: "Condition list"

record KalypsoProjectStatus = CommonStatus +
  CreatedNamespaces :: "string list"

type_synonym KalypsoProject = "(KalypsoProjectSpec, KalypsoProjectStatus) Resource"

definition ProjectPhaseProvisioning :: string where "ProjectPhaseProvisioning = ''Provisioning''"
definition ProjectPhaseReady :: string where "ProjectPhaseReady = ''Ready''"
definition ProjectPhaseFailed :: string where "ProjectPhaseFailed = ''Failed''"

record GitSourceSpec =
  GitRepository :: string
  Branch :: string
  BuildWorkflow :: string

record StorageSpec =
  SecretName :: string
  Region :: string
  Endpoint :: string

record KalypsoApplicationSpec =
  ProjectRef :: string
  Description :: string
  Source :: "GitSourceSpec option"
  Storage :: "StorageSpec option"

record KalypsoApplicationStatus = CommonStatus +
  ActiveModels :: int
  GatewayEndpoint :: string

type_synonym KalypsoApplication = "(KalypsoApplicationSpec, KalypsoApplicationStatus) Resource"

definition ApplicationPhasePending :: string where "ApplicationPhasePending = ''Pending''"
definition ApplicationPhaseReady :: string where "ApplicationPhaseReady = ''Ready''"
definition ApplicationPhaseFailed :: string where "ApplicationPhaseFailed = ''Failed''"

record TritonParameter =
  paramName :: string
  paramValue :: string

record TritonConfigSpec =
  Image :: string
  Tag :: string
  Parameters :: "TritonParameter list"
  BackendType :: string

record NetworkingSpec =
  HttpPort :: "int option"
  GrpcPort :: "int option"
  MetricsPort :: "int option"

record LoggingSpec =
  logEnabled :: bool
  Level :: string

record TracingSpec =
  traceEnabled :: bool
  SamplingRate :: string

record ProfileTypes =
  CPU :: bool
  Memory :: bool

record ProfilingSpec =
  profilingEnabled :: bool
  Profiles :: "ProfileTypes option"

record MetricsSpec =
  metricsEnabled :: bool
  Interval :: string
  EnableServiceMonitor :: bool

record ObservabilitySpec =
  Enabled :: bool
  CollectorEndpoint :: string
  Logging :: "LoggingSpec option"
  Tracing :: "TracingSpec option"
  Profiling :: "ProfilingSpec option"
  Metrics :: "MetricsSpec option"

record ResourceRequirements =
  resLimits :: ResourceList
  resRequests :: ResourceList

record KalypsoTritonServerSpec =
  ApplicationRef :: string
  StorageUri :: string
  TritonConfig :: TritonConfigSpec
  Replicas :: "int option"
  Resources :: "ResourceRequirements option"
  Networking :: "NetworkingSpec option"
  Observability :: "ObservabilitySpec option"

record KalypsoTritonServerStatus = CommonStatus +
  DeploymentName :: string
  ServiceEndpoint :: string
  AvailableReplicas :: int
  Message :: string

type_synonym KalypsoTritonServer = "(KalypsoTritonServerSpec, KalypsoTritonServerStatus) Resource"

definition TritonServerPhasePending :: string where "TritonServerPhasePending = ''Pending''"
definition TritonServerPhaseRunning :: string where "TritonServerPhaseRunning = ''Running''"
definition TritonServerPhaseFailed :: string where "TritonServerPhaseFailed = ''Failed''"

section \<open>The generated child objects\<close>

type_synonym NamespaceObj = "(unit, unit) Resource"

record QuotaSpec =
  Hard :: "string \<rightharpoonup> string"

type_synonym ResourceQuota = "(QuotaSpec, unit) Resource"

record RangeSpec =
  Limits :: "LimitRangeItem list"

type_synonym LimitRange = "(RangeSpec, unit) Resource"

record EnvVar =
  varName :: string
  varValue :: string

record ContainerPort =
  portName :: string
  portNumber :: int
  portProtocol :: string

record Probe =
  probePath :: string
  probePort :: int
  InitialDelaySeconds :: int
  PeriodSeconds :: int

text \<open>
  \<^verbatim>\<open>corev1.Container\<close>. \<^verbatim>\<open>ImagePullPolicy\<close> stands for the fields that the container
  literal of \<^verbatim>\<open>reconcileDeployment\<close> does not mention: Go gives them their zero value.
\<close>

record Container =
  containerName :: string
  containerImage :: string
  Args :: "string list"
  Env :: "EnvVar list"
  EnvFrom :: "string list"
  Ports :: "ContainerPort list"
  ReadinessProbe :: "Probe option"
  LivenessProbe :: "Probe option"
  containerResources :: ResourceRequirements
  ImagePullPolicy :: string

record PodTemplateSpec =
  templateLabels :: "string \<rightharpoonup> string"
  templateAnnotations :: "string \<rightharpoonup> string"
  Containers :: "Container list"

record DeploymentSpec =
  depReplicas :: "int option"
  depSelector :: "(string \<rightharpoonup> string) option"
  Template :: PodTemplateSpec

record DeploymentStatus =
  depAvailableReplicas :: int

type_synonym Deployment = "(DeploymentSpec, DeploymentStatus) Resource"

record ServicePort =
  svcPortName :: string
  svcPort :: int
  TargetPort :: string
  svcProtocol :: string

record ServiceSpec =
  svcSelector :: "string \<rightharpoonup> string"
  svcPorts :: "ServicePort list"
  svcType :: string
  ClusterIP :: string

type_synonym Service = "(ServiceSpec, unit) Resource"

section \<open>The cluster and its client\<close>

text \<open>
  The API server is the state the reconcilers act on: the stored objects of every kind,
  a clock, the list of requests received so far, and a script of injected outcomes. Each
  request takes the head of the script: \<open>Some e\<close> makes the request fail with \<open>e\<close>
  whatever the store holds (a version conflict, a timeout), \<open>None\<close> or an exhausted
  script lets the store answer. This is how every \<^verbatim>\<open>err != nil\<close> branch of the
  reconcilers is reached.
\<close>

datatype Verb = VGet | VList | VCreate | VUpdate | VStatusUpdate | VDelete

type_synonym Request = "Verb \<times> Kind \<times> ObjectKey"

record Cluster =
  projects :: "KalypsoProject list"
  applications :: "KalypsoApplication list"
  tritonServers :: "KalypsoTritonServer list"
  namespaces :: "NamespaceObj list"
  resourceQuotas :: "ResourceQuota list"
  limitRanges :: "LimitRange list"
  deployments :: "Deployment list"
  services :: "Service list"
  clock :: nat
  requests :: "Request list"
  faults :: "error option list"

definition lookupObj :: "ObjectKey \<Rightarrow> 'm ObjectMeta_scheme list \<Rightarrow> 'm ObjectMeta_scheme option" where
  "lookupObj k xs = find (\<lambda>ob. objKey ob = k) xs"

definition replaceObj :: "'m ObjectMeta_scheme \<Rightarrow> 'm ObjectMeta_scheme list \<Rightarrow> 'm ObjectMeta_scheme list" where
  "replaceObj x xs = map (\<lambda>y. if objKey y = objKey x then x else y) xs"

definition removeObj :: "ObjectKey \<Rightarrow> 'm ObjectMeta_scheme list \<Rightarrow> 'm ObjectMeta_scheme list" where
  "removeObj k xs = filter (\<lambda>y. objKey y \<noteq> k) xs"

definition nextFault :: "error option list \<Rightarrow> error option" where
  "nextFault fs = (case fs of [] \<Rightarrow> None | f # rest \<Rightarrow> f)"

definition served :: "Request \<Rightarrow> Cluster \<Rightarrow> Cluster" where
  "served rq c = c\<lparr>requests := requests c @ [rq], faults := tl (faults c)\<rparr>"

definition request :: "Request \<Rightarrow> Cluster \<Rightarrow> error option \<times> Cluster" where
  "request rq c = (nextFault (faults c), served rq c)"

definition notFound :: "ObjectKey \<Rightarrow> error" where
  "notFound k = StatusError StatusReasonNotFound (snd k @ '' not found'')"

definition alreadyExists :: "ObjectKey \<Rightarrow> error" where
  "alreadyExists k = StatusError StatusReasonAlreadyExists (snd k @ '' already exists'')"

text \<open>
  The client's verbs, for a kind given by its selector and its update function on the
  cluster. \<^verbatim>\<open>Update\<close> writes metadata and spec and keeps the stored status;
  \<^verbatim>\<open>Status().Update\<close> writes the status alone (every kind here has the status
  subresource). \<^verbatim>\<open>Delete\<close> removes the object. An object whose deletion timestamp is
  set stays in the store only as long as it has a finalizer: the \<^verbatim>\<open>Update\<close> that takes
  its last finalizer off removes it. The store keeps an object as it was written; it
  fills in no default.
\<close>

definition Get ::
  "Kind \<Rightarrow> (Cluster \<Rightarrow> ('s, 't) Resource list) \<Rightarrow> ObjectKey \<Rightarrow> Cluster
     \<Rightarrow> (error + ('s, 't) Resource) \<times> Cluster" where
  "Get kind sel k c =
     (case request (VGet, kind, k) c of
        (Some err, c1) \<Rightarrow> (Inl err, c1)
      | (None, c1) \<Rightarrow>
          (case lookupObj k (sel c1) of
             None \<Rightarrow> (Inl (notFound k), c1)
           | Some ob \<Rightarrow> (Inr ob, c1)))"

definition Create ::
  "Kind \<Rightarrow> (Cluster \<Rightarrow> ('s, 't) Resource list)
     \<Rightarrow> ((('s, 't) Resource list \<Rightarrow> ('s, 't) Resource list) \<Rightarrow> Cluster \<Rightarrow> Cluster)
     \<Rightarrow> ('s, 't) Resource \<Rightarrow> Cluster \<Rightarrow> error option \<times> Cluster" where
  "Create kind sel upd ob c =
     (case request (VCreate, kind, objKey ob) c of
        (Some err, c1) \<Rightarrow> (Some err, c1)
      | (None, c1) \<Rightarrow>
          (case lookupObj (objKey ob) (sel c1) of
             Some existing \<Rightarrow> (Some (alreadyExists (objKey ob)), c1)
           | None \<Rightarrow> (None, upd (\<lambda>xs. xs @ [ob]) c1)))"

definition Update ::
  "Kind \<Rightarrow> (Cluster \<Rightarrow> ('s, 't) Resource list)
     \<Rightarrow> ((('s, 't) Resource list \<Rightarrow> ('s, 't) Resource list) \<Rightarrow> Cluster \<Rightarrow> Cluster)
     \<Rightarrow> ('s, 't) Resource \<Rightarrow> Cluster \<Rightarrow> error option \<times> Cluster" where
  "Update kind sel upd ob c =
     (case request (VUpdate, kind, objKey ob) c of
        (Some err, c1) \<Rightarrow> (Some err, c1)
      | (None, c1) \<Rightarrow>
          (case lookupObj (objKey ob) (sel c1) of
             None \<Rightarrow> (Some (notFound (objKey ob)), c1)
           | Some stored \<Rightarrow>
               if \<not> IsZero (DeletionTimestamp stored) \<and> Finalizers stored \<noteq> []
                  \<and> Finalizers ob = []
               then (None, upd (removeObj (objKey ob)) c1)
               else (None, upd (replaceObj (ob\<lparr>Status := Status stored\<rparr>)) c1)))"

definition StatusUpdate ::
  "Kind \<Rightarrow> (Cluster \<Rightarrow> ('s, 't) Resource list)
     \<Rightarrow> ((('s, 't) Resource list \<Rightarrow> ('s, 't) Resource list) \<Rightarrow> Cluster \<Rightarrow> Cluster)
     \<Rightarrow> ('s, 't) Resource \<Rightarrow> Cluster \<Rightarrow> error option \<times> Cluster" where
  "StatusUpdate kind sel upd ob c =
     (case request (VStatusUpdate, kind, objKey ob) c of
        (Some err, c1) \<Rightarrow> (Some err, c1)
      | (None, c1) \<Rightarrow>
          (case lookupObj (objKey ob) (sel c1) of
             None \<Rightarrow> (Some (notFound (objKey ob)), c1)
           | Some stored \<Rightarrow> (None, upd (replaceObj (stored\<lparr>Status := Status ob\<rparr>)) c1)))"

definition Delete ::
  "Kind \<Rightarrow> (Cluster \<Rightarrow> ('s, 't) Resource list)
     \<Rightarrow> ((('s, 't) Resource list \<Rightarrow> ('s, 't) Resource list) \<Rightarrow> Cluster \<Rightarrow> Cluster)
     \<Rightarrow> ('s, 't) Resource \<Rightarrow> Cluster \<Rightarrow> error option \<times> Cluster" where
  "Delete kind sel upd ob c =
     (case request (VDelete, kind, objKey ob) c of
        (Some err, c1) \<Rightarrow> (Some err, c1)
      | (None, c1) \<Rightarrow>
          (case lookupObj (objKey ob) (sel c1) of
             None \<Rightarrow> (Some (notFound (objKey ob)), c1)
           | Some stored \<Rightarrow> (None, upd (removeObj (objKey ob)) c1)))"

definition List ::
  "Kind \<Rightarrow> (Cluster \<Rightarrow> ('s, 't) Resource list) \<Rightarrow> string \<Rightarrow> Cluster
     \<Rightarrow> (error + ('s, 't) Resource list) \<times> Cluster" where
  "List kind sel ns c =
     (case request (VList, kind, (ns, [])) c of
        (Some err, c1) \<Rightarrow> (Inl err, c1)
      | (None, c1) \<Rightarrow> (Inr (filter (\<lambda>ob. Namespace ob = ns) (sel c1)), c1))"

section \<open>The Project reconciler\<close>

definition ProjectLabelKey :: string where "ProjectLabelKey = ''kalypso-serving.io/project''"
definition EnvironmentLabelKey :: string where "EnvironmentLabelKey = ''kalypso-serving.io/environment''"
definition ManagedByLabelKey :: string where "ManagedByLabelKey = ''app.kubernetes.io/managed-by''"
definition ManagedByLabelValue :: string where "ManagedByLabelValue = ''kalypso-serving''"
definition FinalizerName :: string where "FinalizerName = ''serving.kalypso.io/finalizer''"

definition newMeta :: "string \<Rightarrow> string \<Rightarrow> (string \<rightharpoonup> string) \<Rightarrow> 's \<Rightarrow> 't \<Rightarrow> ('s, 't) Resource" where
  "newMeta n ns labels sp st =
     \<lparr>Name = n, Namespace = ns, Labels = labels, Annotations = Map.empty, Finalizers = [],
      DeletionTimestamp = None, OwnerReferences = [], Spec = sp, Status = st\<rparr>"

text \<open>\<^verbatim>\<open>setFailedStatus\<close>: the error of the status write is dropped (\<^verbatim>\<open>_ = ...\<close>).\<close>

definition Project_setFailedStatus :: "KalypsoProject \<Rightarrow> string \<Rightarrow> Cluster \<Rightarrow> Cluster" where
  "Project_setFailedStatus project message c =
     (let project1 = project\<lparr>Status := (Status project)\<lparr>
            Phase := ProjectPhaseFailed,
            Conditions := SetStatusCondition (Conditions (Status project))
              \<lparr>condType = ''Ready'', condStatus = ConditionFalse,
               condReason = ''ReconciliationFailed'', condMessage = message,
               LastTransitionTime = clock c\<rparr>\<rparr>\<rparr>
      in snd (StatusUpdate KProject projects projects_update project1 c))"

definition projectLabels :: "KalypsoProject \<Rightarrow> string \<Rightarrow> (string \<rightharpoonup> string)" where
  "projectLabels project envName =
     [ProjectLabelKey \<mapsto> Name project,
      EnvironmentLabelKey \<mapsto> envName,
      ManagedByLabelKey \<mapsto> ManagedByLabelValue]"

definition Project_reconcileNamespace ::
  "KalypsoProject \<Rightarrow> string \<Rightarrow> string \<Rightarrow> Cluster \<Rightarrow> error option \<times> Cluster" where
  "Project_reconcileNamespace project envName nsName c =
     (let ns = newMeta nsName [] (projectLabels project envName) () ()
      in case Get KNamespace namespaces ([], nsName) c of
           (Inl err, c1) \<Rightarrow>
             if IsNotFound err then Create KNamespace namespaces namespaces_update ns c1
             else (Some err, c1)
         | (Inr existingNs, c1) \<Rightarrow>
             Update KNamespace namespaces namespaces_update
               (existingNs\<lparr>Labels := (Labels existingNs)
                   (ProjectLabelKey \<mapsto> Name project,
                    EnvironmentLabelKey \<mapsto> envName,
                    ManagedByLabelKey \<mapsto> ManagedByLabelValue)\<rparr>) c1)"

definition Project_reconcileResourceQuota ::
  "KalypsoProject \<Rightarrow> string \<Rightarrow> string \<Rightarrow> ResourceQuotaSpec \<Rightarrow> Cluster \<Rightarrow> error option \<times> Cluster" where
  "Project_reconcileResourceQuota project envName nsName quotaSpec c =
     (let quotaName = Name project @ ''-quota'';
          hard0 = fold (\<lambda>(k, v) h. h(k \<mapsto> v)) (quotaLimits quotaSpec) Map.empty;
          hard = fold (\<lambda>(k, v) h. h((''requests.'' @ k) \<mapsto> v)) (quotaRequests quotaSpec) hard0;
          quota = newMeta quotaName nsName (projectLabels project envName) \<lparr>Hard = hard\<rparr> ()
      in case Get KResourceQuota resourceQuotas (nsName, quotaName) c of
           (Inl err, c1) \<Rightarrow>
             if IsNotFound err then Create KResourceQuota resourceQuotas resourceQuotas_update quota c1
             else (Some err, c1)
         | (Inr existingQuota, c1) \<Rightarrow>
             Update KResourceQuota resourceQuotas resourceQuotas_update
               (existingQuota\<lparr>Spec := Spec quota\<rparr>) c1)"

definition Project_reconcileLimitRange ::
  "KalypsoProject \<Rightarrow> string \<Rightarrow> string \<Rightarrow> LimitRangeSpec \<Rightarrow> Cluster \<Rightarrow> error option \<times> Cluster" where
  "Project_reconcileLimitRange project envName nsName limitSpec c =
     (let limitName = Name project @ ''-limits'';
          limitRange = newMeta limitName nsName (projectLabels project envName)
                         \<lparr>Limits = rangeLimits limitSpec\<rparr> ()
      in case Get KLimitRange limitRanges (nsName, limitName) c of
           (Inl err, c1) \<Rightarrow>
             if IsNotFound err then Create KLimitRange limitRanges limitRanges_update limitRange c1
             else (Some err, c1)
         | (Inr existingLimit, c1) \<Rightarrow>
             Update KLimitRange limitRanges limitRanges_update
               (existingLimit\<lparr>Spec := Spec limitRange\<rparr>) c1)"

text \<open>
  The loop of \<^verbatim>\<open>Reconcile\<close> over \<^verbatim>\<open>project.Spec.Environments\<close>, with the list of
  namespaces collected so far. \<open>Inl\<close> is the early return of \<^verbatim>\<open>Reconcile\<close> from inside
  the loop.
\<close>

fun Project_reconcileEnvironments ::
  "KalypsoProject \<Rightarrow> (string \<times> EnvironmentSpec) list \<Rightarrow> string list \<Rightarrow> Cluster
     \<Rightarrow> ((Result \<times> error option) + string list) \<times> Cluster" where
  "Project_reconcileEnvironments project [] createdNamespaces c = (Inr createdNamespaces, c)"
| "Project_reconcileEnvironments project ((envName, envSpec) # rest) createdNamespaces c =
     (let nsName = (if envNamespace envSpec = [] then Name project @ ''-'' @ envName
                    else envNamespace envSpec)
      in case Project_reconcileNamespace project envName nsName c of
           (Some err, c1) \<Rightarrow>
             (Inl (emptyResult, Some err),
              Project_setFailedStatus project
                (''Failed to create namespace '' @ nsName @ '': '' @ errorString err) c1)
         | (None, c1) \<Rightarrow>
             (case (case envResourceQuota envSpec of
                      None \<Rightarrow> (None, c1)
                    | Some quotaSpec \<Rightarrow>
                        Project_reconcileResourceQuota project envName nsName quotaSpec c1) of
                (Some err, c2) \<Rightarrow>
                  (Inl (emptyResult, Some err),
                   Project_setFailedStatus project
                     (''Failed to create ResourceQuota in '' @ nsName @ '': '' @ errorString err) c2)
              | (None, c2) \<Rightarrow>
                  (case (case envLimitRange envSpec of
                           None \<Rightarrow> (None, c2)
                         | Some limitSpec \<Rightarrow>
                             Project_reconcileLimitRange project envName nsName limitSpec c2) of
                     (Some err, c3) \<Rightarrow>
                       (Inl (emptyResult, Some err),
                        Project_setFailedStatus project
                          (''Failed to create LimitRange in '' @ nsName @ '': '' @ errorString err) c3)
                   | (None, c3) \<Rightarrow>
                       Project_reconcileEnvironments project rest (createdNamespaces @ [nsName]) c3)))"

text \<open>The loop of \<^verbatim>\<open>reconcileDelete\<close> over \<^verbatim>\<open>project.Status.CreatedNamespaces\<close>.\<close>

fun Project_deleteNamespaces ::
  "KalypsoProject \<Rightarrow> string list \<Rightarrow> Cluster \<Rightarrow> error option \<times> Cluster" where
  "Project_deleteNamespaces project [] c = (None, c)"
| "Project_deleteNamespaces project (nsName # rest) c =
     (case Get KNamespace namespaces ([], nsName) c of
        (Inl err, c1) \<Rightarrow>
          if IsNotFound err then Project_deleteNamespaces project rest c1
          else (Some err, c1)
      | (Inr ns, c1) \<Rightarrow>
          if mapIndex (Labels ns) ProjectLabelKey = Name project then
            (case Delete KNamespace namespaces namespaces_update ns c1 of
               (Some err, c2) \<Rightarrow>
                 if \<not> IsNotFound err then (Some err, c2)
                 else Project_deleteNamespaces project rest c2
             | (None, c2) \<Rightarrow> Project_deleteNamespaces project rest c2)
          else Project_deleteNamespaces project rest c1)"

definition Project_reconcileDelete ::
  "KalypsoProject \<Rightarrow> Cluster \<Rightarrow> (Result \<times> error option) \<times> Cluster" where
  "Project_reconcileDelete project c =
     (case Project_deleteNamespaces project (CreatedNamespaces (Status project)) c of
        (Some err, c1) \<Rightarrow> ((emptyResult, Some err), c1)
      | (None, c1) \<Rightarrow>
          (case Update KProject projects projects_update (RemoveFinalizer project FinalizerName) c1 of
             (Some err, c2) \<Rightarrow> ((emptyResult, Some err), c2)
           | (None, c2) \<Rightarrow> ((emptyResult, None), c2)))"

definition Project_Reconcile :: "ObjectKey \<Rightarrow> Cluster \<Rightarrow> (Result \<times> error option) \<times> Cluster" where
  "Project_Reconcile req c =
     (case Get KProject projects req c of
        (Inl err, c1) \<Rightarrow>
          if IsNotFound err then ((emptyResult, None), c1) else ((emptyResult, Some err), c1)
      | (Inr project, c1) \<Rightarrow>
          if \<not> IsZero (DeletionTimestamp project) then Project_reconcileDelete project c1
          else if \<not> ContainsFinalizer project FinalizerName then
            (case Update KProject projects projects_update (AddFinalizer project FinalizerName) c1 of
               (Some err, c2) \<Rightarrow> ((emptyResult, Some err), c2)
             | (None, c2) \<Rightarrow> ((emptyResult\<lparr>Requeue := True\<rparr>, None), c2))
          else if Phase (Status project) = [] then
            (case StatusUpdate KProject projects projects_update
                    (project\<lparr>Status := (Status project)\<lparr>Phase := ProjectPhaseProvisioning\<rparr>\<rparr>) c1 of
               (Some err, c2) \<Rightarrow> ((emptyResult, Some err), c2)
             | (None, c2) \<Rightarrow> ((emptyResult\<lparr>Requeue := True\<rparr>, None), c2))
          else
            (case Project_reconcileEnvironments project (Environments (Spec project)) [] c1 of
               (Inl early, c2) \<Rightarrow> (early, c2)
             | (Inr createdNamespaces, c2) \<Rightarrow>
                 (let project1 = project\<lparr>Status := (Status project)\<lparr>
                        Phase := ProjectPhaseReady,
                        CreatedNamespaces := createdNamespaces,
                        Conditions := SetStatusCondition (Conditions (Status project))
                          \<lparr>condType = ''NamespaceCreated'', condStatus = ConditionTrue,
                           condReason = ''NamespacesReady'',
                           condMessage = ''All '' @ showInt (int (length createdNamespaces))
                                           @ '' namespaces are ready'',
                           LastTransitionTime = clock c2\<rparr>\<rparr>\<rparr>
                  in case StatusUpdate KProject projects projects_update project1 c2 of
                       (Some err, c3) \<Rightarrow> ((emptyResult, Some err), c3)
                     | (None, c3) \<Rightarrow> ((emptyResult, None), c3))))"

section \<open>The Application reconciler\<close>

definition ApplicationFinalizerName :: string where
  "ApplicationFinalizerName = ''serving.kalypso.io/application-finalizer''"
definition ApplicationLabelKey :: string where
  "ApplicationLabelKey = ''kalypso-serving.io/application''"

definition Application_setFailedStatus :: "KalypsoApplication \<Rightarrow> string \<Rightarrow> Cluster \<Rightarrow> Cluster" where
  "Application_setFailedStatus app message c =
     (let app1 = app\<lparr>Status := (Status app)\<lparr>
            Phase := ApplicationPhaseFailed,
            Conditions := SetStatusCondition (Conditions (Status app))
              \<lparr>condType = ''Ready'', condStatus = ConditionFalse,
               condReason = ''ReconciliationFailed'', condMessage = message,
               LastTransitionTime = clock c\<rparr>\<rparr>\<rparr>
      in snd (StatusUpdate KApplication applications applications_update app1 c))"

text \<open>\<^verbatim>\<open>countActiveTritonServers\<close> returns \<^verbatim>\<open>(0, err)\<close> when the list request fails.\<close>

definition Application_countActiveTritonServers ::
  "KalypsoApplication \<Rightarrow> Cluster \<Rightarrow> (int \<times> error option) \<times> Cluster" where
  "Application_countActiveTritonServers app c =
     (case List KTritonServer tritonServers (Namespace app) c of
        (Inl err, c1) \<Rightarrow> ((0, Some err), c1)
      | (Inr items, c1) \<Rightarrow>
          ((fold (\<lambda>server count.
                    if ApplicationRef (Spec server) = Name app then count + 1 else count)
                 items 0, None), c1))"

definition Application_reconcileDelete ::
  "KalypsoApplication \<Rightarrow> Cluster \<Rightarrow> (Result \<times> error option) \<times> Cluster" where
  "Application_reconcileDelete app c =
     (case Update KApplication applications applications_update
             (RemoveFinalizer app ApplicationFinalizerName) c of
        (Some err, c1) \<Rightarrow>
          if IsConflict err then ((emptyResult\<lparr>Requeue := True\<rparr>, None), c1)
          else ((emptyResult, Some err), c1)
      | (None, c1) \<Rightarrow> ((emptyResult, None), c1))"

text \<open>
  The status that \<^verbatim>\<open>Reconcile\<close> assigns to the re-fetched Application once its Project
  is ready (the block under \<^verbatim>\<open>// Update status to Ready\<close>).
\<close>

definition Application_readyStatus ::
  "KalypsoApplication \<Rightarrow> int \<Rightarrow> nat \<Rightarrow> KalypsoApplicationStatus" where
  "Application_readyStatus app activeModels now =
     (let status1 = (Status app)\<lparr>
            Phase := ApplicationPhaseReady,
            ActiveModels := activeModels,
            GatewayEndpoint := ''http://istio-gateway.istio-system.svc/'' @ Name app\<rparr>;
          conds1 = SetStatusCondition (Conditions status1)
            \<lparr>condType = ''ProjectReady'', condStatus = ConditionTrue,
             condReason = ''ProjectValidated'',
             condMessage = ''KalypsoProject '' @ [CHR 39] @ ProjectRef (Spec app) @ [CHR 39]
                             @ '' is ready'',
             LastTransitionTime = now\<rparr>;
          conds2 = SetStatusCondition conds1
            \<lparr>condType = ''Ready'', condStatus = ConditionTrue,
             condReason = ''ApplicationReady'',
             condMessage = ''KalypsoApplication is ready to serve'',
             LastTransitionTime = now\<rparr>
      in status1\<lparr>Conditions := conds2\<rparr>)"

definition Application_Reconcile :: "ObjectKey \<Rightarrow> Cluster \<Rightarrow> (Result \<times> error option) \<times> Cluster" where
  "Application_Reconcile req c =
     (case Get KApplication applications req c of
        (Inl err, c1) \<Rightarrow>
          if IsNotFound err then ((emptyResult, None), c1) else ((emptyResult, Some err), c1)
      | (Inr app, c1) \<Rightarrow>
          if \<not> IsZero (DeletionTimestamp app) then Application_reconcileDelete app c1
          else if \<not> ContainsFinalizer app ApplicationFinalizerName then
            (case Update KApplication applications applications_update
                    (AddFinalizer app ApplicationFinalizerName) c1 of
               (Some err, c2) \<Rightarrow> ((emptyResult, Some err), c2)
             | (None, c2) \<Rightarrow> ((emptyResult\<lparr>Requeue := True\<rparr>, None), c2))
          else if Phase (Status app) = [] then
            (case StatusUpdate KApplication applications applications_update
                    (app\<lparr>Status := (Status app)\<lparr>Phase := ApplicationPhasePending\<rparr>\<rparr>) c1 of
               (Some err, c2) \<Rightarrow> ((emptyResult, Some err), c2)
             | (None, c2) \<Rightarrow> ((emptyResult\<lparr>Requeue := True\<rparr>, None), c2))
          else
            (case Get KProject projects (Namespace app, ProjectRef (Spec app)) c1 of
               (Inl err, c2) \<Rightarrow>
                 if IsNotFound err then
                   ((emptyResult\<lparr>RequeueAfter := 30000000000\<rparr>, None),
                    Application_setFailedStatus app
                      (''KalypsoProject '' @ [CHR 39] @ ProjectRef (Spec app) @ [CHR 39]
                         @ '' not found'') c2)
                 else ((emptyResult, Some err), c2)
             | (Inr project, c2) \<Rightarrow>
                 if Phase (Status project) \<noteq> ProjectPhaseReady then
                   (case Get KApplication applications req c2 of
                      (Inl err, c3) \<Rightarrow> ((emptyResult, Some err), c3)
                    | (Inr app1, c3) \<Rightarrow>
                        (let app2 = app1\<lparr>Status := (Status app1)\<lparr>
                               Conditions := SetStatusCondition (Conditions (Status app1))
                                 \<lparr>condType = ''ProjectReady'', condStatus = ConditionFalse,
                                  condReason = ''ProjectNotReady'',
                                  condMessage = ''KalypsoProject '' @ [CHR 39]
                                     @ ProjectRef (Spec app1) @ [CHR 39] @ '' is in phase: ''
                                     @ Phase (Status project),
                                  LastTransitionTime = clock c3\<rparr>\<rparr>\<rparr>
                         in case StatusUpdate KApplication applications applications_update app2 c3 of
                              (Some err, c4) \<Rightarrow>
                                if IsConflict err then ((emptyResult\<lparr>Requeue := True\<rparr>, None), c4)
                                else ((emptyResult, Some err), c4)
                            | (None, c4) \<Rightarrow>
                                ((emptyResult\<lparr>RequeueAfter := 10000000000\<rparr>, None), c4)))
                 else
                   (case Application_countActiveTritonServers app c2 of
                      ((activeModels, err), c3) \<Rightarrow>
                        (case Get KApplication applications req c3 of
                           (Inl err1, c4) \<Rightarrow> ((emptyResult, Some err1), c4)
                         | (Inr app1, c4) \<Rightarrow>
                             (case StatusUpdate KApplication applications applications_update
                                     (app1\<lparr>Status :=
                                        Application_readyStatus app1 activeModels (clock c4)\<rparr>)
                                     c4 of
                                   (Some err2, c5) \<Rightarrow>
                                     if IsConflict err2
                                     then ((emptyResult\<lparr>Requeue := True\<rparr>, None), c5)
                                     else ((emptyResult, Some err2), c5)
                                 | (None, c5) \<Rightarrow> ((emptyResult, None), c5))))))"

section \<open>The Server reconciler\<close>

definition TritonServerFinalizerName :: string where
  "TritonServerFinalizerName = ''serving.kalypso.io/tritonserver-finalizer''"
definition TritonServerLabelKey :: string where
  "TritonServerLabelKey = ''kalypso-serving.io/tritonserver''"

text \<open>
  \<^verbatim>\<open>controllerutil.SetControllerReference\<close>: the owner must be in the namespace of the
  object it controls, and an object controlled by someone else is refused.
\<close>

definition referSameObject :: "OwnerReference \<Rightarrow> OwnerReference \<Rightarrow> bool" where
  "referSameObject a b = (refKind a = refKind b \<and> refName a = refName b)"

fun upsertOwnerRef :: "OwnerReference \<Rightarrow> OwnerReference list \<Rightarrow> OwnerReference list" where
  "upsertOwnerRef ref [] = [ref]"
| "upsertOwnerRef ref (r # rs) =
     (if referSameObject r ref then ref # rs else r # upsertOwnerRef ref rs)"

definition SetControllerReference ::
  "Kind \<Rightarrow> 'a ObjectMeta_scheme \<Rightarrow> 'b ObjectMeta_scheme \<Rightarrow> error + 'b ObjectMeta_scheme" where
  "SetControllerReference ownerKind owner controlled =
     (if Namespace owner \<noteq> [] \<and> Namespace controlled = [] then
        Inl (GenericError ''cluster-scoped resource must not have a namespace-scoped owner'')
      else if Namespace owner \<noteq> [] \<and> Namespace owner \<noteq> Namespace controlled then
        Inl (GenericError ''cross-namespace owner references are disallowed'')
      else
        (let ref = \<lparr>refKind = ownerKind, refName = Name owner, refController = True\<rparr>;
             owned = controlled\<lparr>OwnerReferences := upsertOwnerRef ref (OwnerReferences controlled)\<rparr>
         in case find refController (OwnerReferences controlled) of
              None \<Rightarrow> Inr owned
            | Some existing \<Rightarrow>
                if referSameObject existing ref then Inr owned
                else Inl (AlreadyOwnedError ''Object is already owned by another controller'')))"

text \<open>
  \<^verbatim>\<open>controllerutil.CreateOrUpdate\<close>: fetch; when absent, mutate the given object and
  create it; when present, mutate the fetched object and update it unless the mutation
  changed nothing. The mutation may not change the name or the namespace.
\<close>

definition mutate :: "('a ObjectMeta_scheme \<Rightarrow> error + 'a ObjectMeta_scheme) \<Rightarrow> ObjectKey
    \<Rightarrow> 'a ObjectMeta_scheme \<Rightarrow> error + 'a ObjectMeta_scheme" where
  "mutate f k ob =
     (case f ob of
        Inl err \<Rightarrow> Inl err
      | Inr ob1 \<Rightarrow>
          if objKey ob1 \<noteq> k
          then Inl (GenericError ''MutateFn cannot mutate object name and/or object namespace'')
          else Inr ob1)"

definition CreateOrUpdate ::
  "Kind \<Rightarrow> (Cluster \<Rightarrow> ('s, 't) Resource list)
     \<Rightarrow> ((('s, 't) Resource list \<Rightarrow> ('s, 't) Resource list) \<Rightarrow> Cluster \<Rightarrow> Cluster)
     \<Rightarrow> ('s, 't) Resource \<Rightarrow> (('s, 't) Resource \<Rightarrow> error + ('s, 't) Resource)
     \<Rightarrow> Cluster \<Rightarrow> error option \<times> Cluster" where
  "CreateOrUpdate kind sel upd ob f c =
     (case Get kind sel (objKey ob) c of
        (Inl err, c1) \<Rightarrow>
          if \<not> IsNotFound err then (Some err, c1)
          else (case mutate f (objKey ob) ob of
                  Inl err1 \<Rightarrow> (Some err1, c1)
                | Inr ob1 \<Rightarrow> Create kind sel upd ob1 c1)
      | (Inr existing, c1) \<Rightarrow>
          (case mutate f (objKey ob) existing of
             Inl err1 \<Rightarrow> (Some err1, c1)
           | Inr ob1 \<Rightarrow>
               if existing = ob1 then (None, c1)
               else Update kind sel upd ob1 c1))"

definition TritonServer_setFailedStatus :: "KalypsoTritonServer \<Rightarrow> string \<Rightarrow> Cluster \<Rightarrow> Cluster" where
  "TritonServer_setFailedStatus server message c =
     (let server1 = server\<lparr>Status := (Status server)\<lparr>
            Phase := TritonServerPhaseFailed,
            Message := message,
            Conditions := SetStatusCondition (Conditions (Status server))
              \<lparr>condType = ''Available'', condStatus = ConditionFalse,
               condReason = ''ReconciliationFailed'', condMessage = message,
               LastTransitionTime = clock c\<rparr>\<rparr>\<rparr>
      in snd (StatusUpdate KTritonServer tritonServers tritonServers_update server1 c))"

definition TritonServer_reconcileDelete ::
  "KalypsoTritonServer \<Rightarrow> Cluster \<Rightarrow> (Result \<times> error option) \<times> Cluster" where
  "TritonServer_reconcileDelete server c =
     (case Update KTritonServer tritonServers tritonServers_update
             (RemoveFinalizer server TritonServerFinalizerName) c of
        (Some err, c1) \<Rightarrow>
          if IsConflict err then ((emptyResult\<lparr>Requeue := True\<rparr>, None), c1)
          else ((emptyResult, Some err), c1)
      | (None, c1) \<Rightarrow> ((emptyResult, None), c1))"

definition serverLabels :: "KalypsoTritonServer \<Rightarrow> (string \<rightharpoonup> string)" where
  "serverLabels server =
     [TritonServerLabelKey \<mapsto> Name server,
      ApplicationLabelKey \<mapsto> ApplicationRef (Spec server),
      ManagedByLabelKey \<mapsto> ManagedByLabelValue]"

definition portOr :: "int \<Rightarrow> (NetworkingSpec \<Rightarrow> int option) \<Rightarrow> KalypsoTritonServer \<Rightarrow> int" where
  "portOr dflt field server =
     (case Networking (Spec server) of
        None \<Rightarrow> dflt
      | Some networking \<Rightarrow> (case field networking of None \<Rightarrow> dflt | Some p \<Rightarrow> p))"

text \<open>
  The function literals that \<^verbatim>\<open>reconcileDeployment\<close> and \<^verbatim>\<open>reconcileService\<close> pass to
  \<^verbatim>\<open>CreateOrUpdate\<close>, with the local variables they capture as parameters. Labels are
  merged into the object's own, the selector and the pod template are replaced, the
  cluster IP of a Service is kept, and the Server becomes the controlling owner.
\<close>

definition TritonServer_deploymentMutate ::
  "KalypsoTritonServer \<Rightarrow> int \<Rightarrow> (string \<rightharpoonup> string) \<Rightarrow> Container \<Rightarrow> Deployment
     \<Rightarrow> error + Deployment" where
  "TritonServer_deploymentMutate server replicas labels container deployment =
     SetControllerReference KTritonServer server
       (deployment\<lparr>Labels := Labels deployment ++ labels,
                   Spec := (Spec deployment)\<lparr>
                     depReplicas := Some replicas,
                     depSelector := Some labels,
                     Template := \<lparr>templateLabels = labels, templateAnnotations = Map.empty,
                                  Containers = [container]\<rparr>\<rparr>\<rparr>)"

definition TritonServer_serviceMutate ::
  "KalypsoTritonServer \<Rightarrow> int \<Rightarrow> int \<Rightarrow> int \<Rightarrow> (string \<rightharpoonup> string) \<Rightarrow> Service
     \<Rightarrow> error + Service" where
  "TritonServer_serviceMutate server httpPort grpcPort metricsPort labels service =
     SetControllerReference KTritonServer server
       (service\<lparr>Labels := Labels service ++ labels,
                Spec := (Spec service)\<lparr>
                  svcSelector := [TritonServerLabelKey \<mapsto> Name server],
                  svcPorts :=
                    [\<lparr>svcPortName = ''http'', svcPort = httpPort,
                      TargetPort = ''http'', svcProtocol = ''TCP''\<rparr>,
                     \<lparr>svcPortName = ''grpc'', svcPort = grpcPort,
                      TargetPort = ''grpc'', svcProtocol = ''TCP''\<rparr>,
                     \<lparr>svcPortName = ''metrics'', svcPort = metricsPort,
                      TargetPort = ''metrics'', svcProtocol = ''TCP''\<rparr>],
                  svcType := ''ClusterIP''\<rparr>\<rparr>)"

definition TritonServer_reconcileDeployment ::
  "KalypsoTritonServer \<Rightarrow> KalypsoApplication \<Rightarrow> string \<Rightarrow> Cluster \<Rightarrow> error option \<times> Cluster" where
  "TritonServer_reconcileDeployment server app deploymentName c =
     (let replicas = (case Replicas (Spec server) of None \<Rightarrow> 1 | Some r \<Rightarrow> r);
          image = (if Image (TritonConfig (Spec server)) \<noteq> []
                   then Image (TritonConfig (Spec server)) else ''nvcr.io/nvidia/tritonserver'');
          tag = (if Tag (TritonConfig (Spec server)) \<noteq> []
                 then Tag (TritonConfig (Spec server)) else ''24.12-py3'');
          args0 = [''tritonserver'', ''--model-repository='' @ StorageUri (Spec server)];
          args = foldl (\<lambda>acc param. acc @ [''--'' @ paramName param @ ''='' @ paramValue param])
                   args0 (Parameters (TritonConfig (Spec server)));
          httpPort = portOr 8000 HttpPort server;
          grpcPort = portOr 8001 GrpcPort server;
          metricsPort = portOr 8002 MetricsPort server;
          labels = serverLabels server;
          envFrom = (case Storage (Spec app) of
                       None \<Rightarrow> []
                     | Some storage \<Rightarrow>
                         (if SecretName storage \<noteq> [] then [SecretName storage] else []));
          envVars = (case Storage (Spec app) of
                       None \<Rightarrow> []
                     | Some storage \<Rightarrow>
                         (if Endpoint storage \<noteq> []
                          then [\<lparr>varName = ''AWS_ENDPOINT_URL'', varValue = Endpoint storage\<rparr>,
                                \<lparr>varName = ''S3_ENDPOINT'', varValue = Endpoint storage\<rparr>]
                          else [])
                         @ (if Region storage \<noteq> []
                            then [\<lparr>varName = ''AWS_DEFAULT_REGION'', varValue = Region storage\<rparr>]
                            else []));
          deployment = newMeta deploymentName (Namespace server) Map.empty
                         \<lparr>depReplicas = None, depSelector = None,
                          Template = \<lparr>templateLabels = Map.empty, templateAnnotations = Map.empty,
                                      Containers = []\<rparr>\<rparr>
                         \<lparr>depAvailableReplicas = 0\<rparr>;
          container =
            \<lparr>containerName = ''tritonserver'',
             containerImage = image @ '':'' @ tag,
             Args = args,
             Env = envVars,
             EnvFrom = envFrom,
             Ports = [\<lparr>portName = ''http'', portNumber = httpPort, portProtocol = ''TCP''\<rparr>,
                      \<lparr>portName = ''grpc'', portNumber = grpcPort, portProtocol = ''TCP''\<rparr>,
                      \<lparr>portName = ''metrics'', portNumber = metricsPort, portProtocol = ''TCP''\<rparr>],
             ReadinessProbe = Some \<lparr>probePath = ''/v2/health/ready'', probePort = httpPort,
                                    InitialDelaySeconds = 10, PeriodSeconds = 5\<rparr>,
             LivenessProbe = Some \<lparr>probePath = ''/v2/health/live'', probePort = httpPort,
                                   InitialDelaySeconds = 15, PeriodSeconds = 10\<rparr>,
             containerResources =
               (case Resources (Spec server) of
                  None \<Rightarrow> \<lparr>resLimits = [], resRequests = []\<rparr>
                | Some r \<Rightarrow> r),
             ImagePullPolicy = []\<rparr>
      in CreateOrUpdate KDeployment deployments deployments_update deployment
           (TritonServer_deploymentMutate server replicas labels container) c)"

definition TritonServer_reconcileService ::
  "KalypsoTritonServer \<Rightarrow> string \<Rightarrow> Cluster \<Rightarrow> error option \<times> Cluster" where
  "TritonServer_reconcileService server serviceName c =
     (let httpPort = portOr 8000 HttpPort server;
          grpcPort = portOr 8001 GrpcPort server;
          metricsPort = portOr 8002 MetricsPort server;
          labels = serverLabels server;
          service = newMeta serviceName (Namespace server) Map.empty
                      \<lparr>svcSelector = Map.empty, svcPorts = [], svcType = [], ClusterIP = []\<rparr> ()
      in CreateOrUpdate KService services services_update service
           (TritonServer_serviceMutate server httpPort grpcPort metricsPort labels) c)"

text \<open>
  The status that \<^verbatim>\<open>Reconcile\<close> assigns to the re-fetched Server from the Deployment it
  read back (the block under \<^verbatim>\<open>// Update status\<close>); \<open>now\<close> is \<^verbatim>\<open>metav1.Now()\<close>.
\<close>

definition TritonServer_observedStatus ::
  "KalypsoTritonServer \<Rightarrow> string \<Rightarrow> string \<Rightarrow> Deployment \<Rightarrow> nat \<Rightarrow> KalypsoTritonServerStatus" where
  "TritonServer_observedStatus server deploymentName serviceName deployment now =
     (let httpPort = portOr 8000 HttpPort server;
          available = depAvailableReplicas (Status deployment);
          status1 = (Status server)\<lparr>
            DeploymentName := deploymentName,
            AvailableReplicas := available,
            ServiceEndpoint :=
              ''http://'' @ serviceName @ ''.'' @ Namespace server @ ''.svc:'' @ showInt httpPort\<rparr>
      in if available > 0 then
           status1\<lparr>
             Phase := TritonServerPhaseRunning,
             Message := ''Triton Server is ready to serve inference.'',
             Conditions := SetStatusCondition (Conditions status1)
               \<lparr>condType = ''Available'', condStatus = ConditionTrue,
                condReason = ''DeploymentReady'',
                condMessage = ''Deployment has '' @ showInt available @ '' available replicas'',
                LastTransitionTime = now\<rparr>\<rparr>
         else
           status1\<lparr>
             Phase := TritonServerPhasePending,
             Message := ''Waiting for Triton Server to become ready.'',
             Conditions := SetStatusCondition (Conditions status1)
               \<lparr>condType = ''Available'', condStatus = ConditionFalse,
                condReason = ''DeploymentNotReady'',
                condMessage = ''Deployment has no available replicas'',
                LastTransitionTime = now\<rparr>\<rparr>)"

definition TritonServer_Reconcile :: "ObjectKey \<Rightarrow> Cluster \<Rightarrow> (Result \<times> error option) \<times> Cluster" where
  "TritonServer_Reconcile req c =
     (case Get KTritonServer tritonServers req c of
        (Inl err, c1) \<Rightarrow>
          if IsNotFound err then ((emptyResult, None), c1) else ((emptyResult, Some err), c1)
      | (Inr server, c1) \<Rightarrow>
          if \<not> IsZero (DeletionTimestamp server) then TritonServer_reconcileDelete server c1
          else if \<not> ContainsFinalizer server TritonServerFinalizerName then
            (case Update KTritonServer tritonServers tritonServers_update
                    (AddFinalizer server TritonServerFinalizerName) c1 of
               (Some err, c2) \<Rightarrow> ((emptyResult, Some err), c2)
             | (None, c2) \<Rightarrow> ((emptyResult\<lparr>Requeue := True\<rparr>, None), c2))
          else if Phase (Status server) = [] then
            (case StatusUpdate KTritonServer tritonServers tritonServers_update
                    (server\<lparr>Status := (Status server)\<lparr>Phase := TritonServerPhasePending\<rparr>\<rparr>) c1 of
               (Some err, c2) \<Rightarrow> ((emptyResult, Some err), c2)
             | (None, c2) \<Rightarrow> ((emptyResult\<lparr>Requeue := True\<rparr>, None), c2))
          else
            (case Get KApplication applications
                    (Namespace server, ApplicationRef (Spec server)) c1 of
               (Inl err, c2) \<Rightarrow>
                 if IsNotFound err then
                   ((emptyResult\<lparr>RequeueAfter := 30000000000\<rparr>, None),
                    TritonServer_setFailedStatus server
                      (''KalypsoApplication '' @ [CHR 39] @ ApplicationRef (Spec server)
                         @ [CHR 39] @ '' not found'') c2)
                 else ((emptyResult, Some err), c2)
             | (Inr app, c2) \<Rightarrow>
                 (let deploymentName = Name server @ ''-deploy''
                  in case TritonServer_reconcileDeployment server app deploymentName c2 of
                       (Some err, c3) \<Rightarrow>
                         ((emptyResult, Some err),
                          TritonServer_setFailedStatus server
                            (''Failed to reconcile Deployment: '' @ errorString err) c3)
                     | (None, c3) \<Rightarrow>
                         (let serviceName = Name server @ ''-svc''
                          in case TritonServer_reconcileService server serviceName c3 of
                               (Some err, c4) \<Rightarrow>
                                 ((emptyResult, Some err),
                                  TritonServer_setFailedStatus server
                                    (''Failed to reconcile Service: '' @ errorString err) c4)
                             | (None, c4) \<Rightarrow>
                                 (case Get KDeployment deployments
                                         (Namespace server, deploymentName) c4 of
                                    (Inl err, c5) \<Rightarrow> ((emptyResult, Some err), c5)
                                  | (Inr deployment, c5) \<Rightarrow>
                                      (case Get KTritonServer tritonServers req c5 of
                                         (Inl err, c6) \<Rightarrow> ((emptyResult, Some err), c6)
                                       | (Inr server1, c6) \<Rightarrow>
                                           (case StatusUpdate KTritonServer tritonServers
                                                      tritonServers_update
                                                      (server1\<lparr>Status :=
                                                         TritonServer_observedStatus server1
                                                           deploymentName serviceName deployment
                                                           (clock c6)\<rparr>) c6 of
                                                 (Some err, c7) \<Rightarrow>
                                                   if IsConflict err
                                                   then ((emptyResult\<lparr>Requeue := True\<rparr>, None), c7)
                                                   else ((emptyResult, Some err), c7)
                                               | (None, c7) \<Rightarrow> ((emptyResult, None), c7))))))))"

section \<open>Observations on a cluster\<close>




section \<open>Example objects\<close>

text \<open>
  The objects of the end-to-end tests and of the README samples, used to run the
  reconcilers on concrete clusters.
\<close>

definition testApplication :: KalypsoApplication where
  "testApplication =
     \<lparr>Name = ''test-application'', Namespace = ''kalypso-test'', Labels = Map.empty,
      Annotations = Map.empty, Finalizers = [ApplicationFinalizerName],
      DeletionTimestamp = None, OwnerReferences = [],
      Spec = \<lparr>ProjectRef = ''test-project'',
               Description = ''Test application for observability tests'',
               Source = None,
               Storage = Some \<lparr>SecretName = ''aws-s3-credentials'', Region = ''ap-northeast-2'',
                                Endpoint = []\<rparr>\<rparr>,
      Status = \<lparr>Phase = ''Ready'', Conditions = [], ActiveModels = 3, GatewayEndpoint = []\<rparr>\<rparr>"

definition loggingTestServer :: KalypsoTritonServer where
  "loggingTestServer =
     \<lparr>Name = ''logging-test-server'', Namespace = ''kalypso-test'', Labels = Map.empty,
      Annotations = Map.empty, Finalizers = [TritonServerFinalizerName],
      DeletionTimestamp = None, OwnerReferences = [],
      Spec = \<lparr>ApplicationRef = ''test-application'',
               StorageUri = ''s3://test-bucket/models'',
               TritonConfig = \<lparr>Image = ''nvcr.io/nvidia/tritonserver'', Tag = ''24.12-py3'',
                               Parameters = [], BackendType = []\<rparr>,
               Replicas = None, Resources = None, Networking = None,
               Observability = Some \<lparr>Enabled = True, CollectorEndpoint = [],
                 Logging = Some \<lparr>logEnabled = True, Level = ''VERBOSE''\<rparr>,
                 Tracing = None, Profiling = None, Metrics = None\<rparr>\<rparr>,
      Status = \<lparr>Phase = ''Pending'', Conditions = [], DeploymentName = [], ServiceEndpoint = [],
                 AvailableReplicas = 0, Message = []\<rparr>\<rparr>"

definition loggingInfoServer :: KalypsoTritonServer where
  "loggingInfoServer =
     loggingTestServer\<lparr>Name := ''logging-info-server'',
       Spec := (Spec loggingTestServer)\<lparr>
         Observability := Some \<lparr>Enabled = True, CollectorEndpoint = [],
           Logging = Some \<lparr>logEnabled = True, Level = ''INFO''\<rparr>,
           Tracing = None, Profiling = None, Metrics = None\<rparr>\<rparr>\<rparr>"

definition serverCluster :: Cluster where
  "serverCluster =
     \<lparr>projects = [], applications = [testApplication], tritonServers = [loggingTestServer],
      namespaces = [], resourceQuotas = [], limitRanges = [], deployments = [], services = [],
      clock = 1, requests = [], faults = []\<rparr>"

definition parameterServer :: KalypsoTritonServer where
  "parameterServer =
     loggingTestServer\<lparr>Spec := (Spec loggingTestServer)\<lparr>
       TritonConfig := (TritonConfig (Spec loggingTestServer))\<lparr>
         Parameters := [\<lparr>paramName = ''strict-model-config'', paramValue = ''false''\<rparr>,
                        \<lparr>paramName = ''exit-timeout-secs'', paramValue = ''30''\<rparr>]\<rparr>\<rparr>\<rparr>"

definition readyDeployment :: Deployment where
  "readyDeployment =
     \<lparr>Name = ''logging-test-server-deploy'', Namespace = ''kalypso-test'', Labels = Map.empty,
      Annotations = Map.empty, Finalizers = [], DeletionTimestamp = None, OwnerReferences = [],
      Spec = \<lparr>depReplicas = Some 3, depSelector = None,
               Template = \<lparr>templateLabels = Map.empty, templateAnnotations = Map.empty,
                           Containers = []\<rparr>\<rparr>,
      Status = \<lparr>depAvailableReplicas = 2\<rparr>\<rparr>"

definition readyCluster :: Cluster where
  "readyCluster = serverCluster\<lparr>deployments := [readyDeployment]\<rparr>"

definition portServer :: KalypsoTritonServer where
  "portServer =
     loggingTestServer\<lparr>Spec := (Spec loggingTestServer)\<lparr>
       Networking := Some \<lparr>HttpPort = Some 8080, GrpcPort = None, MetricsPort = None\<rparr>\<rparr>\<rparr>"

definition portCluster :: Cluster where
  "portCluster = serverCluster\<lparr>tritonServers := [portServer]\<rparr>"

definition testProject :: KalypsoProject where
  "testProject =
     \<lparr>Name = ''test-project'', Namespace = ''kalypso-test'', Labels = Map.empty,
      Annotations = Map.empty, Finalizers = [FinalizerName],
      DeletionTimestamp = None, OwnerReferences = [],
      Spec = \<lparr>DisplayName = ''Test Project'', Owner = [], Environments = []\<rparr>,
      Status = \<lparr>Phase = ''Ready'', Conditions = [], CreatedNamespaces = []\<rparr>\<rparr>"

definition unavailableError :: error where
  "unavailableError =
     StatusError StatusReasonUnknown ''the server is currently unable to handle the request''"

definition conflictError :: error where
  "conflictError =
     StatusError StatusReasonConflict
       ''Operation cannot be fulfilled: the object has been modified''"

text \<open>The list request of the Application reconcile (its third request) fails.\<close>

definition countFailureCluster :: Cluster where
  "countFailureCluster =
     serverCluster\<lparr>projects := [testProject], faults := [None, None, Some unavailableError]\<rparr>"

text \<open>The last status write of the Project reconcile (its second request) hits a conflict.\<close>

definition projectConflictCluster :: Cluster where
  "projectConflictCluster =
     serverCluster\<lparr>projects := [testProject], faults := [None, Some conflictError]\<rparr>"

text \<open>The last status write of the Application reconcile (its fifth request) hits a conflict.\<close>

definition applicationConflictCluster :: Cluster where
  "applicationConflictCluster =
     serverCluster\<lparr>projects := [testProject],
                    faults := [None, None, None, None, Some conflictError]\<rparr>"

definition sampleProject :: KalypsoProject where
  "sampleProject =
     \<lparr>Name = ''sample-project'', Namespace = ''kalypso-system'', Labels = Map.empty,
      Annotations = Map.empty, Finalizers = [FinalizerName],
      DeletionTimestamp = None, OwnerReferences = [],
      Spec = \<lparr>DisplayName = ''GenAI Model Serving Demo'', Owner = ''team-ai-research'',
               Environments =
                 [(''dev'', \<lparr>envNamespace = ''sample-project-dev'',
                            envDescription = ''Development environment'',
                            envLimitRange = None,
                            envResourceQuota =
                              Some \<lparr>quotaLimits = [(''nvidia.com/gpu'', ''1'')],
                                    quotaRequests = []\<rparr>\<rparr>),
                  (''stage'', \<lparr>envNamespace = [],
                              envDescription = ''Staging environment'',
                              envLimitRange = None, envResourceQuota = None\<rparr>)]\<rparr>,
      Status = \<lparr>Phase = ''Provisioning'', Conditions = [], CreatedNamespaces = []\<rparr>\<rparr>"

text \<open>
  A Project under deletion that recorded three namespaces: the first is gone, the second
  still carries its label, the third was relabelled by someone else.
\<close>

definition deletingProject :: KalypsoProject where
  "deletingProject =
     sampleProject\<lparr>DeletionTimestamp := Some 5,
       Status := \<lparr>Phase = ''Ready'', Conditions = [],
                  CreatedNamespaces = [''sample-project-prod'', ''sample-project-dev'',
                                       ''sample-project-stage'']\<rparr>\<rparr>"

definition ownedNamespace :: NamespaceObj where
  "ownedNamespace =
     newMeta ''sample-project-dev'' []
       [ProjectLabelKey \<mapsto> ''sample-project'', EnvironmentLabelKey \<mapsto> ''dev'',
        ManagedByLabelKey \<mapsto> ManagedByLabelValue] () ()"

definition relabelledNamespace :: NamespaceObj where
  "relabelledNamespace =
     newMeta ''sample-project-stage'' []
       [ProjectLabelKey \<mapsto> ''other-project'', EnvironmentLabelKey \<mapsto> ''stage'',
        ManagedByLabelKey \<mapsto> ManagedByLabelValue] () ()"

definition cleanupCluster :: Cluster where
  "cleanupCluster =
     \<lparr>projects = [deletingProject], applications = [], tritonServers = [],
      namespaces = [ownedNamespace, relabelledNamespace],
      resourceQuotas = [], limitRanges = [], deployments = [], services = [],
      clock = 6, requests = [], faults = []\<rparr>"

text \<open>
  The same cleanup when the namespace \<^verbatim>\<open>sample-project-dev\<close> disappears between its
  fetch and its deletion: the third request answers NotFound.
\<close>

definition raceCluster :: Cluster where
  "raceCluster =
     cleanupCluster\<lparr>faults := [None, None, Some (notFound ([], ''sample-project-dev''))]\<rparr>"

text \<open>The same Project when another controller holds a finalizer on it as well.\<close>

definition guardedProject :: KalypsoProject where
  "guardedProject = deletingProject\<lparr>Finalizers := [FinalizerName, ''example.com/audit'']\<rparr>"

definition guardedCluster :: Cluster where
  "guardedCluster = cleanupCluster\<lparr>projects := [guardedProject]\<rparr>"

text \<open>
  The creation of the quota of the first environment (the fifth request of the Project
  reconcile) fails, after its namespace was created. \<open>partialCluster\<close> is the cluster
  after that reconcile, \<open>abandonedCluster\<close> the same cluster once the Project is deleted.
\<close>

definition quotaFailureCluster :: Cluster where
  "quotaFailureCluster =
     \<lparr>projects = [sampleProject], applications = [], tritonServers = [],
      namespaces = [], resourceQuotas = [], limitRanges = [], deployments = [], services = [],
      clock = 1, requests = [],
      faults = [None, None, None, None, Some unavailableError]\<rparr>"

definition partialCluster :: Cluster where
  "partialCluster =
     snd (Project_Reconcile (''kalypso-system'', ''sample-project'') quotaFailureCluster)"

definition abandonedProject :: KalypsoProject where
  "abandonedProject = (hd (projects partialCluster))\<lparr>DeletionTimestamp := Some 2\<rparr>"

definition abandonedCluster :: Cluster where
  "abandonedCluster = partialCluster\<lparr>projects := [abandonedProject], faults := []\<rparr>"





section \<open>The store and the client\<close>

lemma objKey_simps [simp]:
  "objKey (ob\<lparr>Status := st\<rparr>) = objKey ob"
  "objKey (ob\<lparr>Spec := sp\<rparr>) = objKey ob"
  "objKey (ob\<lparr>Labels := l\<rparr>) = objKey ob"
  "objKey (ob\<lparr>Finalizers := fs\<rparr>) = objKey ob"
  "objKey (ob\<lparr>OwnerReferences := rs\<rparr>) = objKey ob"
  "objKey (newMeta n ns l sp st) = (ns, n)"
  by (simp_all add: objKey_def newMeta_def)

lemma served_simps [simp]:
  "projects (served rq c) = projects c"
  "applications (served rq c) = applications c"
  "tritonServers (served rq c) = tritonServers c"
  "namespaces (served rq c) = namespaces c"
  "resourceQuotas (served rq c) = resourceQuotas c"
  "limitRanges (served rq c) = limitRanges c"
  "deployments (served rq c) = deployments c"
  "services (served rq c) = services c"
  "clock (served rq c) = clock c"
  "requests (served rq c) = requests c @ [rq]"
  "faults (served rq c) = tl (faults c)"
  by (simp_all add: served_def)

lemma lookupObj_key: "lookupObj k xs = Some x \<Longrightarrow> objKey x = k"
  by (auto simp: lookupObj_def find_Some_iff)

lemma lookupObj_append:
  "lookupObj k (xs @ [x]) =
     (case lookupObj k xs of Some y \<Rightarrow> Some y | None \<Rightarrow> if objKey x = k then Some x else None)"
  by (induction xs) (auto simp: lookupObj_def)

lemma lookupObj_replaceObj:
  "lookupObj k (replaceObj x xs) =
     (if k = objKey x then (case lookupObj k xs of None \<Rightarrow> None | Some y \<Rightarrow> Some x)
      else lookupObj k xs)"
  by (induction xs) (auto simp: lookupObj_def replaceObj_def)

lemma lookupObj_removeObj:
  "lookupObj k (removeObj k' xs) = (if k = k' then None else lookupObj k xs)"
  by (induction xs) (auto simp: lookupObj_def removeObj_def)

lemma Get_Inr_iff:
  "Get kind sel k c = (Inr ob, c1) \<longleftrightarrow>
     nextFault (faults c) = None \<and> lookupObj k (sel (served (VGet, kind, k) c)) = Some ob
     \<and> c1 = served (VGet, kind, k) c"
  by (auto simp: Get_def request_def split: option.splits)

lemma Get_Inl_iff:
  "Get kind sel k c = (Inl err, c1) \<longleftrightarrow>
     c1 = served (VGet, kind, k) c \<and>
     (nextFault (faults c) = Some err \<or>
      nextFault (faults c) = None \<and> lookupObj k (sel (served (VGet, kind, k) c)) = None
        \<and> err = notFound k)"
  by (auto simp: Get_def request_def split: option.splits)

lemma Create_None_iff:
  "Create kind sel upd ob c = (None, c1) \<longleftrightarrow>
     nextFault (faults c) = None \<and>
     lookupObj (objKey ob) (sel (served (VCreate, kind, objKey ob) c)) = None \<and>
     c1 = upd (\<lambda>xs. xs @ [ob]) (served (VCreate, kind, objKey ob) c)"
  by (auto simp: Create_def request_def split: option.splits)

lemma Update_None_iff:
  "Update kind sel upd ob c = (None, c1) \<longleftrightarrow>
     nextFault (faults c) = None \<and>
     (\<exists>stored. lookupObj (objKey ob) (sel (served (VUpdate, kind, objKey ob) c)) = Some stored
        \<and> c1 = upd (if \<not> IsZero (DeletionTimestamp stored) \<and> Finalizers stored \<noteq> []
                        \<and> Finalizers ob = []
                     then removeObj (objKey ob)
                     else replaceObj (ob\<lparr>Status := Status stored\<rparr>))
                   (served (VUpdate, kind, objKey ob) c))"
  by (auto simp: Update_def request_def split: option.splits)

lemma StatusUpdate_None_iff:
  "StatusUpdate kind sel upd ob c = (None, c1) \<longleftrightarrow>
     nextFault (faults c) = None \<and>
     (\<exists>stored. lookupObj (objKey ob) (sel (served (VStatusUpdate, kind, objKey ob) c)) = Some stored
        \<and> c1 = upd (replaceObj (stored\<lparr>Status := Status ob\<rparr>))
                   (served (VStatusUpdate, kind, objKey ob) c))"
  by (auto simp: StatusUpdate_def request_def split: option.splits)

lemma emptyResult_simps [simp]:
  "emptyResult\<lparr>Requeue := True\<rparr> \<noteq> emptyResult"
  "emptyResult\<lparr>RequeueAfter := 30000000000\<rparr> \<noteq> emptyResult"
  "emptyResult\<lparr>RequeueAfter := 10000000000\<rparr> \<noteq> emptyResult"
  by (simp_all add: emptyResult_def)

subsection \<open>Conditions\<close>

lemma find_append_if:
  "find P (xs @ ys) = (case find P xs of None \<Rightarrow> find P ys | Some x \<Rightarrow> Some x)"
  by (induction xs) auto

lemma find_updateFirst:
  "find (\<lambda>c. condType c = condType new) cs = Some old \<Longrightarrow>
   find (\<lambda>c. condType c = condType new) (updateFirst new cs) = Some (mergeCondition old new)"
  by (induction cs) (auto simp: mergeCondition_def)

lemma FindStatusCondition_Set:
  "\<exists>cond. FindStatusCondition (SetStatusCondition cs new) (condType new) = Some cond
     \<and> condStatus cond = condStatus new \<and> condReason cond = condReason new
     \<and> condMessage cond = condMessage new"
proof (cases "FindStatusCondition cs (condType new)")
  case None
  then show ?thesis
    by (simp add: SetStatusCondition_def FindStatusCondition_def find_append_if)
next
  case (Some old)
  then show ?thesis
    by (simp add: SetStatusCondition_def FindStatusCondition_def find_updateFirst
        mergeCondition_def)
qed

subsection \<open>\<^verbatim>\<open>CreateOrUpdate\<close>\<close>

lemma mutate_Inr: "mutate f k ob = Inr ob1 \<longleftrightarrow> f ob = Inr ob1 \<and> objKey ob1 = k"
  by (auto simp: mutate_def split: sum.splits)

lemma CreateOrUpdate_None:
  assumes run: "CreateOrUpdate kind sel upd ob f c = (None, c')"
    and lens: "\<And>g c. sel (upd g c) = g (sel c)"
    and frame: "\<And>rq c. sel (served rq c) = sel c"
    and fin: "\<And>ob0 ob1. f ob0 = Inr ob1 \<Longrightarrow> Finalizers ob1 = Finalizers ob0"
  shows "\<exists>ob0 ob1 st. f ob0 = Inr ob1 \<and> objKey ob1 = objKey ob \<and>
            lookupObj (objKey ob) (sel c') = Some (ob1\<lparr>Status := st\<rparr>)"
proof (cases "Get kind sel (objKey ob) c")
  case (Pair r c1)
  show ?thesis
  proof (cases r)
    case (Inl err)
    with run Pair obtain ob1 where m: "mutate f (objKey ob) ob = Inr ob1"
      and cr: "Create kind sel upd ob1 c1 = (None, c')"
      by (auto simp: CreateOrUpdate_def split: if_splits sum.splits)
    from m have f: "f ob = Inr ob1" and k: "objKey ob1 = objKey ob"
      by (simp_all add: mutate_Inr)
    from cr have "lookupObj (objKey ob) (sel c') = Some ob1"
      by (simp add: Create_None_iff lens frame lookupObj_append k)
    then have "lookupObj (objKey ob) (sel c') = Some (ob1\<lparr>Status := Status ob1\<rparr>)"
      by simp
    with f k show ?thesis by blast
  next
    case (Inr existing)
    with Pair have ex: "lookupObj (objKey ob) (sel c) = Some existing"
      and c1: "c1 = served (VGet, kind, objKey ob) c"
      by (simp_all add: Get_Inr_iff frame)
    from run Pair Inr obtain ob1 where m: "mutate f (objKey ob) existing = Inr ob1"
      and w: "existing = ob1 \<and> c' = c1 \<or>
              existing \<noteq> ob1 \<and> Update kind sel upd ob1 c1 = (None, c')"
      by (auto simp: CreateOrUpdate_def split: if_splits sum.splits)
    from m have f: "f existing = Inr ob1" and k: "objKey ob1 = objKey ob"
      by (simp_all add: mutate_Inr)
    from w show ?thesis
    proof
      assume "existing = ob1 \<and> c' = c1"
      with ex c1 have "lookupObj (objKey ob) (sel c') = Some (ob1\<lparr>Status := Status ob1\<rparr>)"
        by (simp add: frame)
      with f k show ?thesis by blast
    next
      assume "existing \<noteq> ob1 \<and> Update kind sel upd ob1 c1 = (None, c')"
      then have "\<exists>st. lookupObj (objKey ob) (sel c') = Some (ob1\<lparr>Status := st\<rparr>)"
        using ex c1 fin [OF f]
        by (auto simp: Update_None_iff lens frame lookupObj_replaceObj k)
      with f k show ?thesis by blast
    qed
  qed
qed

lemma CreateOrUpdate_None_prop:
  assumes run: "CreateOrUpdate kind sel upd ob f c = (None, c')"
    and lens: "\<And>g c. sel (upd g c) = g (sel c)"
    and frame: "\<And>rq c. sel (served rq c) = sel c"
    and fin: "\<And>ob0 ob1. f ob0 = Inr ob1 \<Longrightarrow> Finalizers ob1 = Finalizers ob0"
    and P: "\<And>ob0 ob1. f ob0 = Inr ob1 \<Longrightarrow> P ob1"
    and Pst: "\<And>ob1 st. P ob1 \<Longrightarrow> P (ob1\<lparr>Status := st\<rparr>)"
  shows "\<exists>stored. lookupObj (objKey ob) (sel c') = Some stored \<and> P stored"
  using CreateOrUpdate_None [OF run lens frame fin] P Pst by blast

lemma SetControllerReference_Inr:
  "SetControllerReference kind owner ob = Inr ob1 \<Longrightarrow>
     ob1 = ob\<lparr>OwnerReferences :=
            upsertOwnerRef \<lparr>refKind = kind, refName = Name owner, refController = True\<rparr>
              (OwnerReferences ob)\<rparr>"
  by (auto simp: SetControllerReference_def Let_def split: if_splits option.splits)

lemma deploymentMutate_Finalizers:
  "TritonServer_deploymentMutate server replicas labels container ob0 = Inr ob1 \<Longrightarrow>
     Finalizers ob1 = Finalizers ob0"
  by (auto simp: TritonServer_deploymentMutate_def dest!: SetControllerReference_Inr)


lemma foldl_snoc_map: "foldl (\<lambda>acc x. acc @ [f x]) acc0 xs = acc0 @ map f xs"
  by (induction xs arbitrary: acc0) auto

lemmas eval_defs =
  Get_def Create_def Update_def StatusUpdate_def Delete_def List_def request_def served_def
  nextFault_def lookupObj_def replaceObj_def removeObj_def objKey_def newMeta_def notFound_def
  alreadyExists_def IsZero_def ContainsFinalizer_def AddFinalizer_def RemoveFinalizer_def
  emptyResult_def Let_def mapIndex_def
  CreateOrUpdate_def mutate_def SetControllerReference_def referSameObject_def
  SetStatusCondition_def FindStatusCondition_def mergeCondition_def

lemmas server_defs =
  TritonServer_Reconcile_def TritonServer_reconcileDeployment_def
  TritonServer_reconcileService_def TritonServer_reconcileDelete_def
  TritonServer_setFailedStatus_def TritonServer_observedStatus_def
  TritonServer_deploymentMutate_def TritonServer_serviceMutate_def
  portOr_def serverLabels_def TritonServerFinalizerName_def TritonServerLabelKey_def
  ApplicationLabelKey_def ManagedByLabelKey_def ManagedByLabelValue_def
  TritonServerPhasePending_def TritonServerPhaseRunning_def TritonServerPhaseFailed_def
  ApplicationFinalizerName_def
  testApplication_def loggingTestServer_def serverCluster_def parameterServer_def
  readyDeployment_def readyCluster_def portServer_def portCluster_def

section \<open>The Server reconciler: container arguments\<close>

text \<open>
  C7. Whenever \<^verbatim>\<open>reconcileDeployment\<close> succeeds, the Deployment stored under the
  Server's namespace and the given name has one container, whose argument list is the
  process name \<^verbatim>\<open>tritonserver\<close>, then \<^verbatim>\<open>--model-repository=<storageUri>\<close>, then one
  \<^verbatim>\<open>--<name>=<value>\<close> for each runtime parameter, in the order of the spec.
\<close>

theorem C7_container_args:
  assumes "TritonServer_reconcileDeployment server app deploymentName c = (None, c')"
  shows "\<exists>deployment.
     lookupObj (Namespace server, deploymentName) (deployments c') = Some deployment \<and>
     map Args (Containers (Template (Spec deployment))) =
       [''tritonserver'' # (''--model-repository='' @ StorageUri (Spec server))
          # map (\<lambda>param. ''--'' @ paramName param @ ''='' @ paramValue param)
              (Parameters (TritonConfig (Spec server)))]"
proof -
  let ?P = "\<lambda>d. map Args (Containers (Template (Spec d))) =
       [''tritonserver'' # (''--model-repository='' @ StorageUri (Spec server))
          # map (\<lambda>param. ''--'' @ paramName param @ ''='' @ paramValue param)
              (Parameters (TritonConfig (Spec server)))]"
  from assms obtain replicas labels container where
    run: "CreateOrUpdate KDeployment deployments deployments_update
            (newMeta deploymentName (Namespace server) Map.empty
               \<lparr>depReplicas = None, depSelector = None,
                Template = \<lparr>templateLabels = Map.empty, templateAnnotations = Map.empty,
                            Containers = []\<rparr>\<rparr>
               \<lparr>depAvailableReplicas = 0\<rparr>)
            (TritonServer_deploymentMutate server replicas labels container) c = (None, c')"
    and args: "Args container =
       ''tritonserver'' # (''--model-repository='' @ StorageUri (Spec server))
          # map (\<lambda>param. ''--'' @ paramName param @ ''='' @ paramValue param)
              (Parameters (TritonConfig (Spec server)))"
    by (simp add: TritonServer_reconcileDeployment_def Let_def foldl_snoc_map)
  have "\<exists>stored. lookupObj (objKey (newMeta deploymentName (Namespace server) Map.empty
               \<lparr>depReplicas = None, depSelector = None,
                Template = \<lparr>templateLabels = Map.empty, templateAnnotations = Map.empty,
                            Containers = []\<rparr>\<rparr>
               \<lparr>depAvailableReplicas = 0\<rparr>)) (deployments c') = Some stored \<and> ?P stored"
  proof (rule CreateOrUpdate_None_prop [OF run])
    fix ob0 ob1
    assume "TritonServer_deploymentMutate server replicas labels container ob0 = Inr ob1"
    then show "?P ob1"
      by (auto simp: TritonServer_deploymentMutate_def args dest!: SetControllerReference_Inr)
  qed (simp_all add: deploymentMutate_Finalizers)
  then show ?thesis by simp
qed

theorem C7_container_args_witness:
  "TritonServer_reconcileDeployment parameterServer testApplication
       ''logging-test-server-deploy'' serverCluster
     = (None, snd (TritonServer_reconcileDeployment parameterServer testApplication
                     ''logging-test-server-deploy'' serverCluster))
   \<and> (\<exists>deployment.
        lookupObj (Namespace parameterServer, ''logging-test-server-deploy'')
          (deployments (snd (TritonServer_reconcileDeployment parameterServer testApplication
                               ''logging-test-server-deploy'' serverCluster))) = Some deployment \<and>
        map Args (Containers (Template (Spec deployment))) =
          [''tritonserver'' # (''--model-repository='' @ StorageUri (Spec parameterServer))
             # map (\<lambda>param. ''--'' @ paramName param @ ''='' @ paramValue param)
                 (Parameters (TritonConfig (Spec parameterServer)))])"
proof -
  have run: "TritonServer_reconcileDeployment parameterServer testApplication
       ''logging-test-server-deploy'' serverCluster
     = (None, snd (TritonServer_reconcileDeployment parameterServer testApplication
                     ''logging-test-server-deploy'' serverCluster))"
    by (simp add: prod_eq_iff eval_defs server_defs)
  show ?thesis
    by (intro conjI run C7_container_args [OF run])
qed

text \<open>
  C1. The end-to-end tests create a Server with logging enabled at level \<^verbatim>\<open>VERBOSE\<close>
  and expect \<^verbatim>\<open>--log-verbose=1\<close> among the container arguments, and one at level
  \<^verbatim>\<open>INFO\<close> and expect \<^verbatim>\<open>--log-info=true\<close>. On both Servers \<^verbatim>\<open>reconcileDeployment\<close>
  creates a Deployment whose only arguments are the process name and the model
  repository. The observability block is never read: replacing it changes nothing in
  what \<^verbatim>\<open>reconcileDeployment\<close> does.
\<close>

theorem C1_logging_flag_missing:
  "fst (TritonServer_reconcileDeployment loggingTestServer testApplication
          ''logging-test-server-deploy'' serverCluster) = None
   \<and> map (\<lambda>d. map Args (Containers (Template (Spec d))))
        (deployments (snd (TritonServer_reconcileDeployment loggingTestServer testApplication
                             ''logging-test-server-deploy'' serverCluster)))
      = [[[''tritonserver'', ''--model-repository=s3://test-bucket/models'']]]
   \<and> fst (TritonServer_reconcileDeployment loggingInfoServer testApplication
            ''logging-info-server-deploy'' serverCluster) = None
   \<and> map (\<lambda>d. map Args (Containers (Template (Spec d))))
        (deployments (snd (TritonServer_reconcileDeployment loggingInfoServer testApplication
                             ''logging-info-server-deploy'' serverCluster)))
      = [[[''tritonserver'', ''--model-repository=s3://test-bucket/models'']]]
   \<and> TritonServer_reconcileDeployment
        (server\<lparr>Spec := (Spec server)\<lparr>Observability := observability\<rparr>\<rparr>) app deploymentName c
      = TritonServer_reconcileDeployment server app deploymentName c"
proof (intro conjI)
  show "TritonServer_reconcileDeployment
        (server\<lparr>Spec := (Spec server)\<lparr>Observability := observability\<rparr>\<rparr>) app deploymentName c
      = TritonServer_reconcileDeployment server app deploymentName c"
  proof -
    have "TritonServer_deploymentMutate
            (server\<lparr>Spec := (Spec server)\<lparr>Observability := observability\<rparr>\<rparr>) replicas labels
            container
          = TritonServer_deploymentMutate server replicas labels container"
      for replicas labels container
      by (rule ext)
         (simp add: TritonServer_deploymentMutate_def SetControllerReference_def Let_def)
    then show ?thesis
      by (simp add: TritonServer_reconcileDeployment_def portOr_def serverLabels_def Let_def)
  qed
qed (simp_all add: eval_defs server_defs loggingInfoServer_def)

section \<open>The Server reconciler: published status\<close>

text \<open>
  A reconcile of a live Server that has its finalizer and a phase, and that returns
  \<^verbatim>\<open>(Result{}, nil)\<close>, has read the Deployment back, re-fetched the Server and written
  the observed status.
\<close>

lemma TritonServer_Reconcile_trace:
  assumes run: "TritonServer_Reconcile req c = ((emptyResult, None), c')"
    and fetched: "fst (Get KTritonServer tritonServers req c) = Inr server"
    and live: "IsZero (DeletionTimestamp server)"
      "ContainsFinalizer server TritonServerFinalizerName"
      "Phase (Status server) \<noteq> []"
  shows "\<exists>c4 c5 c6 deployment server1.
     Get KDeployment deployments (Namespace server, Name server @ ''-deploy'') c4 = (Inr deployment, c5)
     \<and> Get KTritonServer tritonServers req c5 = (Inr server1, c6)
     \<and> StatusUpdate KTritonServer tritonServers tritonServers_update
          (server1\<lparr>Status := TritonServer_observedStatus server1 (Name server @ ''-deploy'')
              (Name server @ ''-svc'') deployment (clock c6)\<rparr>) c6 = (None, c')"
  using assms
  apply (cases "Get KTritonServer tritonServers req c")
  apply (simp add: TritonServer_Reconcile_def Let_def
      split: prod.splits sum.splits option.splits if_splits)
  apply blast
  done

lemma TritonServer_Reconcile_stored:
  assumes run: "TritonServer_Reconcile req c = ((emptyResult, None), c')"
    and fetched: "fst (Get KTritonServer tritonServers req c) = Inr server"
    and live: "IsZero (DeletionTimestamp server)"
      "ContainsFinalizer server TritonServerFinalizerName"
      "Phase (Status server) \<noteq> []"
  shows "\<exists>server1 deployment.
     lookupObj (Namespace server, Name server @ ''-deploy'') (deployments c') = Some deployment \<and>
     objKey server1 = objKey server \<and>
     lookupObj req (tritonServers c') =
       Some (server1\<lparr>Status := TritonServer_observedStatus server1 (Name server @ ''-deploy'')
              (Name server @ ''-svc'') deployment (clock c')\<rparr>)"
proof -
  from TritonServer_Reconcile_trace [OF assms]
  obtain c4 c5 c6 deployment server1 where
    g1: "Get KDeployment deployments (Namespace server, Name server @ ''-deploy'') c4
           = (Inr deployment, c5)"
    and g2: "Get KTritonServer tritonServers req c5 = (Inr server1, c6)"
    and su: "StatusUpdate KTritonServer tritonServers tritonServers_update
          (server1\<lparr>Status := TritonServer_observedStatus server1 (Name server @ ''-deploy'')
              (Name server @ ''-svc'') deployment (clock c6)\<rparr>) c6 = (None, c')"
    by blast
  from fetched have k0: "objKey server = req"
    by (cases "Get KTritonServer tritonServers req c")
       (auto simp: Get_Inr_iff dest: lookupObj_key)
  from g1 have d: "lookupObj (Namespace server, Name server @ ''-deploy'') (deployments c4)
                     = Some deployment"
    and c5: "c5 = served (VGet, KDeployment, Namespace server, Name server @ ''-deploy'') c4"
    by (simp_all add: Get_Inr_iff)
  from g2 have s1: "lookupObj req (tritonServers c5) = Some server1"
    and c6: "c6 = served (VGet, KTritonServer, req) c5"
    by (simp_all add: Get_Inr_iff)
  from s1 have k1: "objKey server1 = req" by (rule lookupObj_key)
  from su k1 s1 c6 have c': "c' = tritonServers_update
      (replaceObj (server1\<lparr>Status := TritonServer_observedStatus server1 (Name server @ ''-deploy'')
              (Name server @ ''-svc'') deployment (clock c6)\<rparr>))
      (served (VStatusUpdate, KTritonServer, req) c6)"
    by (auto simp: StatusUpdate_None_iff)
  have "lookupObj (Namespace server, Name server @ ''-deploy'') (deployments c') = Some deployment"
    using d by (simp add: c' c6 c5)
  moreover have "lookupObj req (tritonServers c') =
       Some (server1\<lparr>Status := TritonServer_observedStatus server1 (Name server @ ''-deploy'')
              (Name server @ ''-svc'') deployment (clock c')\<rparr>)"
    using s1 k1 by (simp add: c' c6 lookupObj_replaceObj)
  ultimately show ?thesis using k0 k1 by blast
qed

text \<open>
  C4. After a Server reconcile that ran to the end and returned \<^verbatim>\<open>(Result{}, nil)\<close>, the
  stored Server has phase \<^verbatim>\<open>Running\<close> when the available-replica count of its Deployment
  is greater than zero and \<^verbatim>\<open>Pending\<close> otherwise, whatever its phase was before; the
  count is copied to the status, and the \<^verbatim>\<open>Available\<close> condition is true exactly in the
  first case.
\<close>

theorem C4_phase_follows_available_replicas:
  assumes run: "TritonServer_Reconcile req c = ((emptyResult, None), c')"
    and fetched: "fst (Get KTritonServer tritonServers req c) = Inr server"
    and live: "IsZero (DeletionTimestamp server)"
      "ContainsFinalizer server TritonServerFinalizerName"
      "Phase (Status server) \<noteq> []"
  shows "\<exists>server1 deployment cond.
     lookupObj req (tritonServers c') = Some server1 \<and>
     lookupObj (Namespace server, Name server @ ''-deploy'') (deployments c') = Some deployment \<and>
     AvailableReplicas (Status server1) = depAvailableReplicas (Status deployment) \<and>
     Phase (Status server1) =
       (if 0 < depAvailableReplicas (Status deployment)
        then TritonServerPhaseRunning else TritonServerPhasePending) \<and>
     FindStatusCondition (Conditions (Status server1)) ''Available'' = Some cond \<and>
     condStatus cond =
       (if 0 < depAvailableReplicas (Status deployment) then ConditionTrue else ConditionFalse)"
proof -
  from TritonServer_Reconcile_stored [OF assms]
  obtain server1 deployment where
    d: "lookupObj (Namespace server, Name server @ ''-deploy'') (deployments c') = Some deployment"
    and s: "lookupObj req (tritonServers c') =
       Some (server1\<lparr>Status := TritonServer_observedStatus server1 (Name server @ ''-deploy'')
              (Name server @ ''-svc'') deployment (clock c')\<rparr>)"
    by blast
  let ?st = "TritonServer_observedStatus server1 (Name server @ ''-deploy'')
              (Name server @ ''-svc'') deployment (clock c')"
  let ?new = "\<lparr>condType = ''Available'',
      condStatus = (if 0 < depAvailableReplicas (Status deployment)
                    then ConditionTrue else ConditionFalse),
      condReason = (if 0 < depAvailableReplicas (Status deployment)
                    then ''DeploymentReady'' else ''DeploymentNotReady''),
      condMessage = (if 0 < depAvailableReplicas (Status deployment)
                     then ''Deployment has '' @ showInt (depAvailableReplicas (Status deployment))
                            @ '' available replicas''
                     else ''Deployment has no available replicas''),
      LastTransitionTime = clock c'\<rparr>"
  have a: "AvailableReplicas ?st = depAvailableReplicas (Status deployment)"
    by (simp add: TritonServer_observedStatus_def Let_def)
  have p: "Phase ?st = (if 0 < depAvailableReplicas (Status deployment)
        then TritonServerPhaseRunning else TritonServerPhasePending)"
    by (simp add: TritonServer_observedStatus_def Let_def)
  have cs: "Conditions ?st = SetStatusCondition (Conditions (Status server1)) ?new"
    by (simp add: TritonServer_observedStatus_def Let_def)
  from FindStatusCondition_Set [of "Conditions (Status server1)" ?new]
  obtain cond where "FindStatusCondition (Conditions ?st) ''Available'' = Some cond"
    and "condStatus cond =
       (if 0 < depAvailableReplicas (Status deployment) then ConditionTrue else ConditionFalse)"
    unfolding cs by auto
  with d s a p show ?thesis by auto
qed

theorem C4_phase_follows_available_replicas_witness:
  "TritonServer_Reconcile (''kalypso-test'', ''logging-test-server'') readyCluster
     = ((emptyResult, None),
        snd (TritonServer_Reconcile (''kalypso-test'', ''logging-test-server'') readyCluster))
   \<and> fst (Get KTritonServer tritonServers (''kalypso-test'', ''logging-test-server'') readyCluster)
       = Inr loggingTestServer
   \<and> IsZero (DeletionTimestamp loggingTestServer)
   \<and> ContainsFinalizer loggingTestServer TritonServerFinalizerName
   \<and> Phase (Status loggingTestServer) \<noteq> []
   \<and> (\<exists>server1 deployment cond.
        lookupObj (''kalypso-test'', ''logging-test-server'')
          (tritonServers (snd (TritonServer_Reconcile (''kalypso-test'', ''logging-test-server'')
                                 readyCluster))) = Some server1 \<and>
        lookupObj (Namespace loggingTestServer, Name loggingTestServer @ ''-deploy'')
          (deployments (snd (TritonServer_Reconcile (''kalypso-test'', ''logging-test-server'')
                               readyCluster))) = Some deployment \<and>
        AvailableReplicas (Status server1) = depAvailableReplicas (Status deployment) \<and>
        Phase (Status server1) =
          (if 0 < depAvailableReplicas (Status deployment)
           then TritonServerPhaseRunning else TritonServerPhasePending) \<and>
        FindStatusCondition (Conditions (Status server1)) ''Available'' = Some cond \<and>
        condStatus cond =
          (if 0 < depAvailableReplicas (Status deployment) then ConditionTrue else ConditionFalse))"
proof -
  have run: "TritonServer_Reconcile (''kalypso-test'', ''logging-test-server'') readyCluster
     = ((emptyResult, None),
        snd (TritonServer_Reconcile (''kalypso-test'', ''logging-test-server'') readyCluster))"
    by (simp add: prod_eq_iff eval_defs server_defs)
  have fetched: "fst (Get KTritonServer tritonServers (''kalypso-test'', ''logging-test-server'')
                        readyCluster) = Inr loggingTestServer"
    by (simp add: eval_defs server_defs)
  have l1: "IsZero (DeletionTimestamp loggingTestServer)"
    by (simp add: eval_defs server_defs)
  have l2: "ContainsFinalizer loggingTestServer TritonServerFinalizerName"
    by (simp add: eval_defs server_defs)
  have l3: "Phase (Status loggingTestServer) \<noteq> []"
    by (simp add: eval_defs server_defs)
  show ?thesis
    by (intro conjI run fetched l1 l2 l3
        C4_phase_follows_available_replicas [OF run fetched l1 l2 l3])
qed

text \<open>
  C10. After a Server reconcile that ran to the end and returned \<^verbatim>\<open>(Result{}, nil)\<close>, the
  stored Server has \<^verbatim>\<open>status.DeploymentName = <name>-deploy\<close> and
  \<^verbatim>\<open>status.ServiceEndpoint = http://<name>-svc.<namespace>.svc:<httpPort>\<close>, where the port
  is \<^verbatim>\<open>spec.networking.httpPort\<close> when it is set and 8000 otherwise.
\<close>

theorem C10_deployment_name_and_endpoint:
  assumes run: "TritonServer_Reconcile req c = ((emptyResult, None), c')"
    and fetched: "fst (Get KTritonServer tritonServers req c) = Inr server"
    and live: "IsZero (DeletionTimestamp server)"
      "ContainsFinalizer server TritonServerFinalizerName"
      "Phase (Status server) \<noteq> []"
  shows "\<exists>server1.
     lookupObj req (tritonServers c') = Some server1 \<and>
     Name server1 = Name server \<and> Namespace server1 = Namespace server \<and>
     DeploymentName (Status server1) = Name server @ ''-deploy'' \<and>
     ServiceEndpoint (Status server1) =
       ''http://'' @ Name server @ ''-svc.'' @ Namespace server @ ''.svc:''
         @ showInt (case Networking (Spec server1) of
                      None \<Rightarrow> 8000
                    | Some networking \<Rightarrow>
                        (case HttpPort networking of None \<Rightarrow> 8000 | Some p \<Rightarrow> p))"
proof -
  from TritonServer_Reconcile_stored [OF assms]
  obtain server1 deployment where
    k: "objKey server1 = objKey server"
    and s: "lookupObj req (tritonServers c') =
       Some (server1\<lparr>Status := TritonServer_observedStatus server1 (Name server @ ''-deploy'')
              (Name server @ ''-svc'') deployment (clock c')\<rparr>)"
    by blast
  from k have n: "Name server1 = Name server" "Namespace server1 = Namespace server"
    by (simp_all add: objKey_def)
  let ?st = "TritonServer_observedStatus server1 (Name server @ ''-deploy'')
              (Name server @ ''-svc'') deployment (clock c')"
  have dn: "DeploymentName ?st = Name server @ ''-deploy''"
    by (simp add: TritonServer_observedStatus_def Let_def)
  have se: "ServiceEndpoint ?st =
       ''http://'' @ Name server @ ''-svc.'' @ Namespace server @ ''.svc:''
         @ showInt (case Networking (Spec server1) of
                      None \<Rightarrow> 8000
                    | Some networking \<Rightarrow>
                        (case HttpPort networking of None \<Rightarrow> 8000 | Some p \<Rightarrow> p))"
    by (simp add: TritonServer_observedStatus_def Let_def portOr_def n)
  from s n dn se show ?thesis by simp
qed

theorem C10_deployment_name_and_endpoint_witness:
  "TritonServer_Reconcile (''kalypso-test'', ''logging-test-server'') portCluster
     = ((emptyResult, None),
        snd (TritonServer_Reconcile (''kalypso-test'', ''logging-test-server'') portCluster))
   \<and> fst (Get KTritonServer tritonServers (''kalypso-test'', ''logging-test-server'') portCluster)
       = Inr portServer
   \<and> IsZero (DeletionTimestamp portServer)
   \<and> ContainsFinalizer portServer TritonServerFinalizerName
   \<and> Phase (Status portServer) \<noteq> []
   \<and> (\<exists>server1.
        lookupObj (''kalypso-test'', ''logging-test-server'')
          (tritonServers (snd (TritonServer_Reconcile (''kalypso-test'', ''logging-test-server'')
                                 portCluster))) = Some server1 \<and>
        Name server1 = Name portServer \<and> Namespace server1 = Namespace portServer \<and>
        DeploymentName (Status server1) = Name portServer @ ''-deploy'' \<and>
        ServiceEndpoint (Status server1) =
          ''http://'' @ Name portServer @ ''-svc.'' @ Namespace portServer @ ''.svc:''
            @ showInt (case Networking (Spec server1) of
                         None \<Rightarrow> 8000
                       | Some networking \<Rightarrow>
                           (case HttpPort networking of None \<Rightarrow> 8000 | Some p \<Rightarrow> p)))
   \<and> map (\<lambda>s. (DeploymentName (Status s), ServiceEndpoint (Status s)))
        (tritonServers (snd (TritonServer_Reconcile (''kalypso-test'', ''logging-test-server'')
                               portCluster)))
       = [(''logging-test-server-deploy'',
           ''http://logging-test-server-svc.kalypso-test.svc:8080'')]"
proof -
  have run: "TritonServer_Reconcile (''kalypso-test'', ''logging-test-server'') portCluster
     = ((emptyResult, None),
        snd (TritonServer_Reconcile (''kalypso-test'', ''logging-test-server'') portCluster))"
    by (simp add: prod_eq_iff eval_defs server_defs)
  have fetched: "fst (Get KTritonServer tritonServers (''kalypso-test'', ''logging-test-server'')
                        portCluster) = Inr portServer"
    by (simp add: eval_defs server_defs)
  have l1: "IsZero (DeletionTimestamp portServer)"
    by (simp add: eval_defs server_defs)
  have l2: "ContainsFinalizer portServer TritonServerFinalizerName"
    by (simp add: eval_defs server_defs)
  have l3: "Phase (Status portServer) \<noteq> []"
    by (simp add: eval_defs server_defs)
  have ev: "map (\<lambda>s. (DeploymentName (Status s), ServiceEndpoint (Status s)))
        (tritonServers (snd (TritonServer_Reconcile (''kalypso-test'', ''logging-test-server'')
                               portCluster)))
       = [(''logging-test-server-deploy'',
           ''http://logging-test-server-svc.kalypso-test.svc:8080'')]"
    by (simp add: eval_defs server_defs showInt_def showNat.simps)
  show ?thesis
    by (intro conjI run fetched l1 l2 l3 ev
        C10_deployment_name_and_endpoint [OF run fetched l1 l2 l3])
qed

section \<open>The Application reconciler\<close>

lemmas application_defs =
  Application_Reconcile_def Application_reconcileDelete_def Application_setFailedStatus_def
  Application_countActiveTritonServers_def Application_readyStatus_def
  ApplicationPhasePending_def ApplicationPhaseReady_def ApplicationPhaseFailed_def
  ProjectPhaseReady_def ProjectPhaseProvisioning_def ProjectPhaseFailed_def FinalizerName_def
  testProject_def unavailableError_def conflictError_def countFailureCluster_def
  projectConflictCluster_def applicationConflictCluster_def

text \<open>
  C6. A live Application with its finalizer and a phase, whose Project is not in the
  store: when its own fetch and the fetch of the Project are answered by the store, the
  reconcile returns \<^verbatim>\<open>RequeueAfter\<close> of 30 seconds and no error, also when the status
  write fails; when the status write goes through, the stored Application has phase
  \<^verbatim>\<open>Failed\<close> and a false \<^verbatim>\<open>Ready\<close> condition whose message names the missing Project.
\<close>

theorem C6_missing_project:
  assumes stored: "lookupObj req (applications c) = Some app"
    and live: "IsZero (DeletionTimestamp app)"
      "ContainsFinalizer app ApplicationFinalizerName"
      "Phase (Status app) \<noteq> []"
    and missing: "lookupObj (Namespace app, ProjectRef (Spec app)) (projects c) = None"
    and answered: "nextFault (faults c) = None" "nextFault (tl (faults c)) = None"
  shows "fst (Application_Reconcile req c) = (emptyResult\<lparr>RequeueAfter := 30 * 1000000000\<rparr>, None)
    \<and> (nextFault (tl (tl (faults c))) = None \<longrightarrow>
         (\<exists>app1 cond.
            lookupObj req (applications (snd (Application_Reconcile req c))) = Some app1 \<and>
            Phase (Status app1) = ApplicationPhaseFailed \<and>
            FindStatusCondition (Conditions (Status app1)) ''Ready'' = Some cond \<and>
            condStatus cond = ConditionFalse \<and>
            condMessage cond =
              ''KalypsoProject '' @ [CHR 39] @ ProjectRef (Spec app) @ [CHR 39] @ '' not found''))"
proof -
  from stored have k: "objKey app = req" by (rule lookupObj_key)
  let ?msg = "''KalypsoProject '' @ [CHR 39] @ ProjectRef (Spec app) @ [CHR 39] @ '' not found''"
  let ?c2 = "served (VGet, KProject, Namespace app, ProjectRef (Spec app))
               (served (VGet, KApplication, req) c)"
  have run: "Application_Reconcile req c =
      ((emptyResult\<lparr>RequeueAfter := 30000000000\<rparr>, None),
       Application_setFailedStatus app ?msg ?c2)"
    using assms
    by (simp add: Application_Reconcile_def Get_def request_def notFound_def)
  let ?new = "\<lparr>condType = ''Ready'', condStatus = ConditionFalse,
               condReason = ''ReconciliationFailed'', condMessage = ?msg,
               LastTransitionTime = clock c\<rparr>"
  have st: "nextFault (tl (tl (faults c))) = None \<Longrightarrow>
      lookupObj req (applications (Application_setFailedStatus app ?msg ?c2)) =
        Some (app\<lparr>Status := (Status app)\<lparr>Phase := ApplicationPhaseFailed,
                 Conditions := SetStatusCondition (Conditions (Status app)) ?new\<rparr>\<rparr>)"
    using stored k
    by (simp add: Application_setFailedStatus_def StatusUpdate_def request_def Let_def
        lookupObj_replaceObj)
  from FindStatusCondition_Set [of "Conditions (Status app)" ?new]
  obtain cond where "FindStatusCondition (SetStatusCondition (Conditions (Status app)) ?new) ''Ready''
                       = Some cond"
    and "condStatus cond = ConditionFalse" and "condMessage cond = ?msg"
    by auto
  with st run show ?thesis by simp
qed

theorem C6_missing_project_witness:
  "lookupObj (''kalypso-test'', ''test-application'') (applications serverCluster)
     = Some testApplication
   \<and> IsZero (DeletionTimestamp testApplication)
   \<and> ContainsFinalizer testApplication ApplicationFinalizerName
   \<and> Phase (Status testApplication) \<noteq> []
   \<and> lookupObj (Namespace testApplication, ProjectRef (Spec testApplication))
        (projects serverCluster) = None
   \<and> nextFault (faults serverCluster) = None
   \<and> nextFault (tl (faults serverCluster)) = None
   \<and> fst (Application_Reconcile (''kalypso-test'', ''test-application'') serverCluster)
        = (emptyResult\<lparr>RequeueAfter := 30 * 1000000000\<rparr>, None)
   \<and> nextFault (tl (tl (faults serverCluster))) = None
   \<and> (\<exists>app1 cond.
         lookupObj (''kalypso-test'', ''test-application'')
           (applications (snd (Application_Reconcile (''kalypso-test'', ''test-application'')
                                 serverCluster))) = Some app1 \<and>
         Phase (Status app1) = ApplicationPhaseFailed \<and>
         FindStatusCondition (Conditions (Status app1)) ''Ready'' = Some cond \<and>
         condStatus cond = ConditionFalse \<and>
         condMessage cond =
           ''KalypsoProject '' @ [CHR 39] @ ProjectRef (Spec testApplication) @ [CHR 39]
             @ '' not found'')"
proof -
  have h1: "lookupObj (''kalypso-test'', ''test-application'') (applications serverCluster)
              = Some testApplication"
    by (simp add: eval_defs server_defs)
  have h2: "IsZero (DeletionTimestamp testApplication)"
    by (simp add: eval_defs server_defs)
  have h3: "ContainsFinalizer testApplication ApplicationFinalizerName"
    by (simp add: eval_defs server_defs)
  have h4: "Phase (Status testApplication) \<noteq> []"
    by (simp add: eval_defs server_defs)
  have h5: "lookupObj (Namespace testApplication, ProjectRef (Spec testApplication))
              (projects serverCluster) = None"
    by (simp add: eval_defs server_defs)
  have h6: "nextFault (faults serverCluster) = None"
    by (simp add: eval_defs server_defs)
  have h7: "nextFault (tl (faults serverCluster)) = None"
    by (simp add: eval_defs server_defs)
  have h8: "nextFault (tl (tl (faults serverCluster))) = None"
    by (simp add: eval_defs server_defs)
  note r = C6_missing_project [OF h1 h2 h3 h4 h5 h6 h7]
  show ?thesis
    by (intro conjI h1 h2 h3 h4 h5 h6 h7 h8 r [THEN conjunct1] r [THEN conjunct2, THEN mp, OF h8])
qed

text \<open>
  C9. A live Application with its finalizer and a phase, whose Project is ready: when
  the list request of \<^verbatim>\<open>countActiveTritonServers\<close> fails and the requests around it go
  through, the reconcile still returns \<^verbatim>\<open>(Result{}, nil)\<close>, and the stored Application
  has phase \<^verbatim>\<open>Ready\<close> and \<^verbatim>\<open>ActiveModels = 0\<close>, whatever count was published before.
\<close>

theorem C9_count_failure_publishes_zero:
  assumes stored: "lookupObj req (applications c) = Some app"
    and live: "IsZero (DeletionTimestamp app)"
      "ContainsFinalizer app ApplicationFinalizerName"
      "Phase (Status app) \<noteq> []"
    and project: "lookupObj (Namespace app, ProjectRef (Spec app)) (projects c) = Some project"
      "Phase (Status project) = ProjectPhaseReady"
    and script: "faults c = None # None # Some err # rest"
      "nextFault rest = None" "nextFault (tl rest) = None"
  shows "fst (Application_Reconcile req c) = (emptyResult, None)
    \<and> (\<exists>app1. lookupObj req (applications (snd (Application_Reconcile req c))) = Some app1 \<and>
          Phase (Status app1) = ApplicationPhaseReady \<and>
          ActiveModels (Status app1) = 0)"
proof -
  from stored have k: "objKey app = req" by (rule lookupObj_key)
  show ?thesis
    using assms k
    by (simp add: Application_Reconcile_def Application_countActiveTritonServers_def
        Get_def List_def StatusUpdate_def request_def nextFault_def Let_def
        lookupObj_replaceObj Application_readyStatus_def)
qed

theorem C9_count_failure_publishes_zero_witness:
  "lookupObj (''kalypso-test'', ''test-application'') (applications countFailureCluster)
     = Some testApplication
   \<and> IsZero (DeletionTimestamp testApplication)
   \<and> ContainsFinalizer testApplication ApplicationFinalizerName
   \<and> Phase (Status testApplication) \<noteq> []
   \<and> lookupObj (Namespace testApplication, ProjectRef (Spec testApplication))
        (projects countFailureCluster) = Some testProject
   \<and> Phase (Status testProject) = ProjectPhaseReady
   \<and> faults countFailureCluster = None # None # Some unavailableError # []
   \<and> nextFault [] = None
   \<and> nextFault (tl []) = None
   \<and> ActiveModels (Status testApplication) = 3
   \<and> fst (Application_Reconcile (''kalypso-test'', ''test-application'') countFailureCluster)
        = (emptyResult, None)
   \<and> (\<exists>app1.
         lookupObj (''kalypso-test'', ''test-application'')
           (applications (snd (Application_Reconcile (''kalypso-test'', ''test-application'')
                                 countFailureCluster))) = Some app1 \<and>
         Phase (Status app1) = ApplicationPhaseReady \<and>
         ActiveModels (Status app1) = 0)"
proof -
  have h1: "lookupObj (''kalypso-test'', ''test-application'') (applications countFailureCluster)
              = Some testApplication"
    by (simp add: eval_defs server_defs application_defs)
  have h2: "IsZero (DeletionTimestamp testApplication)"
    by (simp add: eval_defs server_defs)
  have h3: "ContainsFinalizer testApplication ApplicationFinalizerName"
    by (simp add: eval_defs server_defs)
  have h4: "Phase (Status testApplication) \<noteq> []"
    by (simp add: eval_defs server_defs)
  have h5: "lookupObj (Namespace testApplication, ProjectRef (Spec testApplication))
              (projects countFailureCluster) = Some testProject"
    by (simp add: eval_defs server_defs application_defs)
  have h6: "Phase (Status testProject) = ProjectPhaseReady"
    by (simp add: application_defs)
  have h7: "faults countFailureCluster = None # None # Some unavailableError # []"
    by (simp add: server_defs application_defs)
  have h8: "nextFault [] = None"
    by (simp add: nextFault_def)
  have h9: "nextFault (tl []) = None"
    by (simp add: nextFault_def)
  have h10: "ActiveModels (Status testApplication) = 3"
    by (simp add: server_defs)
  note r = C9_count_failure_publishes_zero [OF h1 h2 h3 h4 h5 h6 h7 h8 h9]
  show ?thesis
    by (intro conjI h1 h2 h3 h4 h5 h6 h7 h8 h9 h10 r [THEN conjunct1] r [THEN conjunct2])
qed

section \<open>Version conflicts\<close>

text \<open>
  C3. A Project with its finalizer and a phase, with no environment, whose last status
  write answers with a version conflict: the Project reconcile returns the conflict as
  its error, with the zero \<^verbatim>\<open>Result\<close>. On the matching status write the Application
  reconcile returns \<^verbatim>\<open>Result{Requeue: true}\<close> and no error.
\<close>

theorem C3_project_conflict_is_returned:
  "fst (Project_Reconcile (''kalypso-test'', ''test-project'') projectConflictCluster)
     = (emptyResult, Some conflictError)
   \<and> fst (Application_Reconcile (''kalypso-test'', ''test-application'') applicationConflictCluster)
     = (emptyResult\<lparr>Requeue := True\<rparr>, None)"
  by (simp add: eval_defs server_defs application_defs Project_Reconcile_def
      showInt_def showNat.simps)

section \<open>The Project reconciler: deletion cleanup\<close>

lemmas project_defs =
  Project_Reconcile_def Project_reconcileDelete_def Project_setFailedStatus_def
  Project_reconcileNamespace_def Project_reconcileResourceQuota_def
  Project_reconcileLimitRange_def projectLabels_def
  ProjectLabelKey_def EnvironmentLabelKey_def ManagedByLabelKey_def ManagedByLabelValue_def
  sampleProject_def deletingProject_def ownedNamespace_def relabelledNamespace_def
  cleanupCluster_def raceCluster_def guardedProject_def guardedCluster_def
  quotaFailureCluster_def partialCluster_def abandonedProject_def abandonedCluster_def

lemma Delete_None_iff:
  "Delete kind sel upd ob c = (None, c1) \<longleftrightarrow>
     nextFault (faults c) = None \<and>
     (\<exists>stored. lookupObj (objKey ob) (sel (served (VDelete, kind, objKey ob) c)) = Some stored)
     \<and> c1 = upd (removeObj (objKey ob)) (served (VDelete, kind, objKey ob) c)"
  by (auto simp: Delete_def request_def split: option.splits)

lemma Delete_Some_iff:
  "Delete kind sel upd ob c = (Some err, c1) \<longleftrightarrow>
     c1 = served (VDelete, kind, objKey ob) c \<and>
     (nextFault (faults c) = Some err \<or>
      nextFault (faults c) = None \<and>
        lookupObj (objKey ob) (sel (served (VDelete, kind, objKey ob) c)) = None \<and>
        err = notFound (objKey ob))"
  by (auto simp: Delete_def request_def split: option.splits)

lemma deleteNamespaces_projects:
  "projects (snd (Project_deleteNamespaces project l c)) = projects c"
proof (induction l arbitrary: c)
  case Nil
  then show ?case by simp
next
  case (Cons nsName rest)
  show ?case
    by (auto simp: Cons.IH Get_def Delete_def request_def
        split: prod.splits sum.splits option.splits)
qed

lemma deleteNamespaces_namespaces:
  "lookupObj k (namespaces (snd (Project_deleteNamespaces project l c))) = lookupObj k (namespaces c)
   \<or> lookupObj k (namespaces (snd (Project_deleteNamespaces project l c))) = None
     \<and> fst k = [] \<and> snd k \<in> set l
     \<and> (\<exists>ns. lookupObj k (namespaces c) = Some ns
            \<and> mapIndex (Labels ns) ProjectLabelKey = Name project)"
proof (induction l arbitrary: c)
  case Nil
  then show ?case by simp
next
  case (Cons nsName rest)
  let ?c1 = "served (VGet, KNamespace, [], nsName) c"
  show ?case
  proof (cases "Get KNamespace namespaces ([], nsName) c")
    case (Pair r c1)
    show ?thesis
    proof (cases r)
      case (Inl err)
      with Pair have c1: "c1 = ?c1" by (simp add: Get_Inl_iff)
      show ?thesis
        using Pair Inl Cons.IH [of c1] by (auto simp: c1)
    next
      case (Inr ns)
      with Pair have c1: "c1 = ?c1"
        and ns: "lookupObj ([], nsName) (namespaces c) = Some ns"
        by (simp_all add: Get_Inr_iff)
      from ns have kns: "objKey ns = ([], nsName)" by (rule lookupObj_key)
      show ?thesis
      proof (cases "mapIndex (Labels ns) ProjectLabelKey = Name project")
        case False
        then show ?thesis
          using Pair Inr Cons.IH [of c1] by (auto simp: c1)
      next
        case True
        show ?thesis
        proof (cases "Delete KNamespace namespaces namespaces_update ns c1")
          case (Pair e c2)
          note del = this
          show ?thesis
          proof (cases e)
            case None
            with del have c2: "namespaces c2 = removeObj ([], nsName) (namespaces c)"
              by (auto simp: Delete_None_iff c1 kns)
            from \<open>Get KNamespace namespaces ([], nsName) c = (r, c1)\<close> Inr True del None
            have run: "Project_deleteNamespaces project (nsName # rest) c
                        = Project_deleteNamespaces project rest c2"
              by simp
            show ?thesis
              unfolding run
              using Cons.IH [of c2] ns True
              by (auto simp: c2 lookupObj_removeObj split: if_splits)
          next
            case (Some err)
            with del have c2: "namespaces c2 = namespaces c"
              by (auto simp: Delete_Some_iff c1)
            from \<open>Get KNamespace namespaces ([], nsName) c = (r, c1)\<close> Inr True del Some
            have run: "Project_deleteNamespaces project (nsName # rest) c
                        = (if \<not> IsNotFound err then (Some err, c2)
                           else Project_deleteNamespaces project rest c2)"
              by simp
            show ?thesis
              unfolding run
              using Cons.IH [of c2]
              by (auto simp: c2)
          qed
        qed
      qed
    qed
  qed
qed

subsection \<open>One round of the loop\<close>

text \<open>
  When every injected failure is a NotFound, a round of the loop never returns: it goes
  on with the rest of the list, after the fetch alone or after the fetch and the
  deletion.
\<close>

lemma tolerable_tl:
  "list_all (\<lambda>f. case f of None \<Rightarrow> True | Some err \<Rightarrow> IsNotFound err) fs \<Longrightarrow>
   list_all (\<lambda>f. case f of None \<Rightarrow> True | Some err \<Rightarrow> IsNotFound err) (tl fs)"
  by (cases fs) auto

lemma tolerable_nextFault:
  "list_all (\<lambda>f. case f of None \<Rightarrow> True | Some err \<Rightarrow> IsNotFound err) fs \<Longrightarrow>
   nextFault fs = Some err \<Longrightarrow> IsNotFound err"
  by (cases fs) (auto simp: nextFault_def)

lemma deleteNamespaces_step:
  assumes tol: "list_all (\<lambda>f. case f of None \<Rightarrow> True | Some err \<Rightarrow> IsNotFound err) (faults c)"
  shows "Project_deleteNamespaces project (nsName # rest) c =
     Project_deleteNamespaces project rest
       (case lookupObj ([], nsName) (namespaces c) of
          None \<Rightarrow> served (VGet, KNamespace, [], nsName) c
        | Some ns \<Rightarrow>
            if nextFault (faults c) = None \<and> mapIndex (Labels ns) ProjectLabelKey = Name project
            then (if nextFault (tl (faults c)) = None
                  then namespaces_update (removeObj ([], nsName))
                         (served (VDelete, KNamespace, [], nsName)
                            (served (VGet, KNamespace, [], nsName) c))
                  else served (VDelete, KNamespace, [], nsName)
                         (served (VGet, KNamespace, [], nsName) c))
            else served (VGet, KNamespace, [], nsName) c)"
proof (cases "lookupObj ([], nsName) (namespaces c)")
  case None
  then show ?thesis
    using tolerable_nextFault [OF tol]
    by (auto simp: Get_def request_def notFound_def split: option.splits)
next
  case (Some ns)
  then have k: "objKey ns = ([], nsName)" by (rule lookupObj_key)
  show ?thesis
    using Some tolerable_nextFault [OF tol] tolerable_nextFault [OF tolerable_tl [OF tol]]
    by (auto simp: Get_def Delete_def request_def k split: option.splits)
qed

lemma deleteNamespaces_tolerant:
  "list_all (\<lambda>f. case f of None \<Rightarrow> True | Some err \<Rightarrow> IsNotFound err) (faults c) \<Longrightarrow>
   fst (Project_deleteNamespaces project l c) = None"
proof (induction l arbitrary: c)
  case Nil
  then show ?case by simp
next
  case (Cons nsName rest)
  note t0 = Cons.prems
  note t1 = tolerable_tl [OF t0]
  note t2 = tolerable_tl [OF t1]
  show ?case
    unfolding deleteNamespaces_step [OF t0]
    using t1 t2 by (auto intro!: Cons.IH split: option.splits)
qed

text \<open>The loop fetches every recorded namespace, in the order of the list.\<close>

lemma deleteNamespaces_requests:
  "list_all (\<lambda>f. case f of None \<Rightarrow> True | Some err \<Rightarrow> IsNotFound err) (faults c) \<Longrightarrow>
   \<exists>rs. requests (snd (Project_deleteNamespaces project l c)) = requests c @ rs
      \<and> filter (\<lambda>rq. fst rq = VGet) rs = map (\<lambda>nsName. (VGet, KNamespace, [], nsName)) l"
proof (induction l arbitrary: c)
  case Nil
  then show ?case by simp
next
  case (Cons nsName rest)
  note t0 = Cons.prems
  note t1 = tolerable_tl [OF t0]
  note t2 = tolerable_tl [OF t1]
  let ?g = "(VGet, KNamespace, [] :: string, nsName)"
  let ?d = "(VDelete, KNamespace, [] :: string, nsName)"
  obtain c' where step: "Project_deleteNamespaces project (nsName # rest) c
                          = Project_deleteNamespaces project rest c'"
    and tol: "list_all (\<lambda>f. case f of None \<Rightarrow> True | Some err \<Rightarrow> IsNotFound err) (faults c')"
    and rq: "requests c' = requests c @ [?g] \<or> requests c' = requests c @ [?g, ?d]"
    using deleteNamespaces_step [OF t0, of project nsName rest] t1 t2
    by (auto simp del: Project_deleteNamespaces.simps split: option.splits if_splits)
  from Cons.IH [OF tol] obtain rs where
    rs: "requests (snd (Project_deleteNamespaces project rest c')) = requests c' @ rs"
    and gets: "filter (\<lambda>rq. fst rq = VGet) rs = map (\<lambda>nsName. (VGet, KNamespace, [], nsName)) rest"
    by blast
  from rq show ?case
  proof
    assume "requests c' = requests c @ [?g]"
    then have "requests (snd (Project_deleteNamespaces project (nsName # rest) c))
                 = requests c @ (?g # rs)"
      by (simp add: step rs del: Project_deleteNamespaces.simps)
    moreover have "filter (\<lambda>rq. fst rq = VGet) (?g # rs)
                     = map (\<lambda>nsName. (VGet, KNamespace, [], nsName)) (nsName # rest)"
      by (simp add: gets)
    ultimately show ?thesis by blast
  next
    assume "requests c' = requests c @ [?g, ?d]"
    then have "requests (snd (Project_deleteNamespaces project (nsName # rest) c))
                 = requests c @ (?g # ?d # rs)"
      by (simp add: step rs del: Project_deleteNamespaces.simps)
    moreover have "filter (\<lambda>rq. fst rq = VGet) (?g # ?d # rs)
                     = map (\<lambda>nsName. (VGet, KNamespace, [], nsName)) (nsName # rest)"
      by (simp add: gets)
    ultimately show ?thesis by blast
  qed
qed

text \<open>
  When no failure is injected, a recorded namespace that carries the Project's label is
  gone at the end of the loop, whatever precedes it in the list.
\<close>

lemma quiet_tolerable:
  "list_all (\<lambda>f. f = None) fs \<Longrightarrow>
   list_all (\<lambda>f. case f of None \<Rightarrow> True | Some err \<Rightarrow> IsNotFound err) fs"
  by (induction fs) auto

lemma quiet_tl: "list_all (\<lambda>f. f = None) fs \<Longrightarrow> list_all (\<lambda>f. f = None) (tl fs)"
  by (cases fs) auto

lemma quiet_nextFault: "list_all (\<lambda>f. f = None) fs \<Longrightarrow> nextFault fs = None"
  by (cases fs) (auto simp: nextFault_def)

lemma deleteNamespaces_deletes:
  assumes "list_all (\<lambda>f. f = None) (faults c)"
    and "nsName \<in> set l"
    and "lookupObj ([], nsName) (namespaces c) = Some ns"
    and "mapIndex (Labels ns) ProjectLabelKey = Name project"
  shows "lookupObj ([], nsName) (namespaces (snd (Project_deleteNamespaces project l c))) = None"
  using assms
proof (induction l arbitrary: c)
  case Nil
  then show ?case by simp
next
  case (Cons n rest)
  note q0 = Cons.prems(1)
  note q1 = quiet_tl [OF q0]
  note q2 = quiet_tl [OF q1]
  note step = deleteNamespaces_step [OF quiet_tolerable [OF q0], of project n rest]
  show ?case
  proof (cases "n = nsName")
    case True
    let ?c' = "namespaces_update (removeObj ([], nsName))
                 (served (VDelete, KNamespace, [], nsName)
                    (served (VGet, KNamespace, [], nsName) c))"
    have run: "Project_deleteNamespaces project (n # rest) c
                 = Project_deleteNamespaces project rest ?c'"
      using step Cons.prems(3,4) quiet_nextFault [OF q0] quiet_nextFault [OF q1]
      by (simp add: True del: Project_deleteNamespaces.simps)
    have "lookupObj ([], nsName) (namespaces ?c') = None"
      by (simp add: lookupObj_removeObj)
    with deleteNamespaces_namespaces [of "([], nsName)" project rest ?c']
    show ?thesis unfolding run by auto
  next
    case False
    with Cons.prems(2) have mem: "nsName \<in> set rest" by simp
    obtain c' where run: "Project_deleteNamespaces project (n # rest) c
                           = Project_deleteNamespaces project rest c'"
      and q: "list_all (\<lambda>f. f = None) (faults c')"
      and same: "lookupObj ([], nsName) (namespaces c') = lookupObj ([], nsName) (namespaces c)"
      using step q1 q2 False
      by (auto simp: lookupObj_removeObj simp del: Project_deleteNamespaces.simps
          split: option.splits if_splits)
    show ?thesis
      unfolding run
      using Cons.IH [OF q mem _ Cons.prems(4)] Cons.prems(3) same by simp
  qed
qed

subsection \<open>The update that takes the finalizer off\<close>

lemma reconcileDelete_namespaces:
  "namespaces (snd (Project_reconcileDelete project c)) =
   namespaces (snd (Project_deleteNamespaces project (CreatedNamespaces (Status project)) c))"
  by (simp add: Project_reconcileDelete_def Update_def request_def
      split: prod.splits option.splits)

lemma reconcileDelete_finalizer:
  assumes loop: "Project_deleteNamespaces project (CreatedNamespaces (Status project)) c = (None, c1)"
    and st: "lookupObj (objKey project) (projects c) = Some stored"
    and nf: "nextFault (faults c1) = None"
  shows "fst (Project_reconcileDelete project c) = (emptyResult, None)"
    and "requests (snd (Project_reconcileDelete project c))
           = requests c1 @ [(VUpdate, KProject, objKey project)]"
    and "projects (snd (Project_reconcileDelete project c)) =
           (if \<not> IsZero (DeletionTimestamp stored) \<and> Finalizers stored \<noteq> []
               \<and> filter (\<lambda>f. f \<noteq> FinalizerName) (Finalizers project) = []
            then removeObj (objKey project) (projects c)
            else replaceObj
                   (project\<lparr>Finalizers := filter (\<lambda>f. f \<noteq> FinalizerName) (Finalizers project),
                            Status := Status stored\<rparr>) (projects c))"
proof -
  have p1: "projects c1 = projects c"
    using deleteNamespaces_projects [of project "CreatedNamespaces (Status project)" c]
    by (simp add: loop)
  have k: "objKey (RemoveFinalizer project FinalizerName) = objKey project"
    by (simp add: RemoveFinalizer_def)
  have u: "Update KProject projects projects_update (RemoveFinalizer project FinalizerName) c1 =
      (None, projects_update
         (if \<not> IsZero (DeletionTimestamp stored) \<and> Finalizers stored \<noteq> []
             \<and> filter (\<lambda>f. f \<noteq> FinalizerName) (Finalizers project) = []
          then removeObj (objKey project)
          else replaceObj
                 (project\<lparr>Finalizers := filter (\<lambda>f. f \<noteq> FinalizerName) (Finalizers project),
                          Status := Status stored\<rparr>))
         (served (VUpdate, KProject, objKey project) c1))"
    using st nf by (simp add: Update_def request_def k p1) (simp add: RemoveFinalizer_def)
  show "fst (Project_reconcileDelete project c) = (emptyResult, None)"
    and "requests (snd (Project_reconcileDelete project c))
           = requests c1 @ [(VUpdate, KProject, objKey project)]"
    and "projects (snd (Project_reconcileDelete project c)) =
           (if \<not> IsZero (DeletionTimestamp stored) \<and> Finalizers stored \<noteq> []
               \<and> filter (\<lambda>f. f \<noteq> FinalizerName) (Finalizers project) = []
            then removeObj (objKey project) (projects c)
            else replaceObj
                   (project\<lparr>Finalizers := filter (\<lambda>f. f \<noteq> FinalizerName) (Finalizers project),
                            Status := Status stored\<rparr>) (projects c))"
    by (simp_all add: Project_reconcileDelete_def loop u p1)
qed

lemma finalizer_gone:
  "FinalizerName \<notin> set (concat (map Finalizers (filter (\<lambda>p. objKey p = objKey project)
      (if gone then removeObj (objKey project) xs
       else replaceObj
              (project\<lparr>Finalizers := filter (\<lambda>f. f \<noteq> FinalizerName) (Finalizers project),
                       Status := st\<rparr>) xs))))"
  by (auto simp: removeObj_def replaceObj_def)

text \<open>
  C5. The deletion cleanup of a Project, for any namespace key: a namespace whose
  project label differs from the Project's name is left as it was, whatever the outcome
  of the cleanup; a namespace that the cleanup changed is gone, its name is in the
  recorded list and its project label named this Project. When every injected failure
  is a NotFound, the loop over the recorded list runs to its end without an error and
  fetches every recorded namespace, in the order of the list: a NotFound on a fetch or
  on a deletion stops nothing. When no failure is injected, every recorded namespace
  that carries the Project's label is gone after the cleanup, also when a missing one
  precedes it. When the Project is stored and the final update goes through, the
  cleanup returns \<^verbatim>\<open>(Result{}, nil)\<close>; that update is its last request and carries the
  Project without the finalizer; the store then drops the Project if it is under
  deletion and has no finalizer left, and otherwise keeps it without this finalizer.
\<close>

theorem C5_cleanup_spares_foreign_namespaces:
  "(lookupObj k (namespaces c) = Some ns \<and> mapIndex (Labels ns) ProjectLabelKey \<noteq> Name project
      \<longrightarrow> lookupObj k (namespaces (snd (Project_reconcileDelete project c))) = Some ns)
   \<and> (lookupObj k (namespaces (snd (Project_reconcileDelete project c)))
         \<noteq> lookupObj k (namespaces c)
      \<longrightarrow> lookupObj k (namespaces (snd (Project_reconcileDelete project c))) = None
          \<and> fst k = [] \<and> snd k \<in> set (CreatedNamespaces (Status project))
          \<and> (\<exists>owned. lookupObj k (namespaces c) = Some owned
                \<and> mapIndex (Labels owned) ProjectLabelKey = Name project))
   \<and> (list_all (\<lambda>f. case f of None \<Rightarrow> True | Some err \<Rightarrow> IsNotFound err) (faults c)
      \<longrightarrow> fst (Project_deleteNamespaces project (CreatedNamespaces (Status project)) c) = None
          \<and> (\<exists>rs. requests (snd (Project_deleteNamespaces project
                                   (CreatedNamespaces (Status project)) c)) = requests c @ rs
                \<and> filter (\<lambda>rq. fst rq = VGet) rs
                    = map (\<lambda>nsName. (VGet, KNamespace, [], nsName))
                        (CreatedNamespaces (Status project))))
   \<and> (list_all (\<lambda>f. f = None) (faults c)
       \<and> nsName \<in> set (CreatedNamespaces (Status project))
       \<and> lookupObj ([], nsName) (namespaces c) = Some labelled
       \<and> mapIndex (Labels labelled) ProjectLabelKey = Name project
      \<longrightarrow> lookupObj ([], nsName) (namespaces (snd (Project_reconcileDelete project c))) = None)
   \<and> (list_all (\<lambda>f. case f of None \<Rightarrow> True | Some err \<Rightarrow> IsNotFound err) (faults c)
       \<and> lookupObj (objKey project) (projects c) = Some stored
       \<and> nextFault (faults (snd (Project_deleteNamespaces project
                                   (CreatedNamespaces (Status project)) c))) = None
      \<longrightarrow> fst (Project_reconcileDelete project c) = (emptyResult, None)
          \<and> requests (snd (Project_reconcileDelete project c))
              = requests (snd (Project_deleteNamespaces project
                                 (CreatedNamespaces (Status project)) c))
                @ [(VUpdate, KProject, objKey project)]
          \<and> projects (snd (Project_reconcileDelete project c)) =
              (if \<not> IsZero (DeletionTimestamp stored) \<and> Finalizers stored \<noteq> []
                  \<and> filter (\<lambda>f. f \<noteq> FinalizerName) (Finalizers project) = []
               then removeObj (objKey project) (projects c)
               else replaceObj
                      (project\<lparr>Finalizers :=
                                 filter (\<lambda>f. f \<noteq> FinalizerName) (Finalizers project),
                               Status := Status stored\<rparr>) (projects c))
          \<and> FinalizerName \<notin> set (concat (map Finalizers
                (filter (\<lambda>p. objKey p = objKey project)
                   (projects (snd (Project_reconcileDelete project c)))))))"
proof -
  let ?l = "CreatedNamespaces (Status project)"
  let ?c1 = "snd (Project_deleteNamespaces project ?l c)"
  note frame = deleteNamespaces_namespaces [of k project ?l c]
  have a: "lookupObj k (namespaces c) = Some ns \<and> mapIndex (Labels ns) ProjectLabelKey \<noteq> Name project
      \<longrightarrow> lookupObj k (namespaces (snd (Project_reconcileDelete project c))) = Some ns"
    using frame by (auto simp: reconcileDelete_namespaces)
  have b: "lookupObj k (namespaces (snd (Project_reconcileDelete project c)))
         \<noteq> lookupObj k (namespaces c)
      \<longrightarrow> lookupObj k (namespaces (snd (Project_reconcileDelete project c))) = None
          \<and> fst k = [] \<and> snd k \<in> set ?l
          \<and> (\<exists>owned. lookupObj k (namespaces c) = Some owned
                \<and> mapIndex (Labels owned) ProjectLabelKey = Name project)"
    using frame by (auto simp: reconcileDelete_namespaces)
  have c: "list_all (\<lambda>f. case f of None \<Rightarrow> True | Some err \<Rightarrow> IsNotFound err) (faults c)
      \<longrightarrow> fst (Project_deleteNamespaces project ?l c) = None
          \<and> (\<exists>rs. requests ?c1 = requests c @ rs
                \<and> filter (\<lambda>rq. fst rq = VGet) rs
                    = map (\<lambda>nsName. (VGet, KNamespace, [], nsName)) ?l)"
    using deleteNamespaces_tolerant [of c project ?l] deleteNamespaces_requests [of c project ?l]
    by blast
  have d: "list_all (\<lambda>f. f = None) (faults c)
       \<and> nsName \<in> set ?l
       \<and> lookupObj ([], nsName) (namespaces c) = Some labelled
       \<and> mapIndex (Labels labelled) ProjectLabelKey = Name project
      \<longrightarrow> lookupObj ([], nsName) (namespaces (snd (Project_reconcileDelete project c))) = None"
    using deleteNamespaces_deletes [of c nsName ?l labelled project]
    by (simp add: reconcileDelete_namespaces)
  have e: "list_all (\<lambda>f. case f of None \<Rightarrow> True | Some err \<Rightarrow> IsNotFound err) (faults c)
       \<and> lookupObj (objKey project) (projects c) = Some stored
       \<and> nextFault (faults ?c1) = None
      \<longrightarrow> fst (Project_reconcileDelete project c) = (emptyResult, None)
          \<and> requests (snd (Project_reconcileDelete project c))
              = requests ?c1 @ [(VUpdate, KProject, objKey project)]
          \<and> projects (snd (Project_reconcileDelete project c)) =
              (if \<not> IsZero (DeletionTimestamp stored) \<and> Finalizers stored \<noteq> []
                  \<and> filter (\<lambda>f. f \<noteq> FinalizerName) (Finalizers project) = []
               then removeObj (objKey project) (projects c)
               else replaceObj
                      (project\<lparr>Finalizers :=
                                 filter (\<lambda>f. f \<noteq> FinalizerName) (Finalizers project),
                               Status := Status stored\<rparr>) (projects c))
          \<and> FinalizerName \<notin> set (concat (map Finalizers
                (filter (\<lambda>p. objKey p = objKey project)
                   (projects (snd (Project_reconcileDelete project c))))))"
  proof (intro impI, elim conjE)
    assume tol: "list_all (\<lambda>f. case f of None \<Rightarrow> True | Some err \<Rightarrow> IsNotFound err) (faults c)"
      and st: "lookupObj (objKey project) (projects c) = Some stored"
      and nf: "nextFault (faults ?c1) = None"
    from deleteNamespaces_tolerant [OF tol, of project ?l]
    have loop: "Project_deleteNamespaces project ?l c = (None, ?c1)"
      by (simp add: prod_eq_iff)
    note r = reconcileDelete_finalizer [OF loop st nf]
    have "FinalizerName \<notin> set (concat (map Finalizers
                (filter (\<lambda>p. objKey p = objKey project)
                   (projects (snd (Project_reconcileDelete project c))))))"
      unfolding r(3) by (rule finalizer_gone)
    with r show "fst (Project_reconcileDelete project c) = (emptyResult, None)
          \<and> requests (snd (Project_reconcileDelete project c))
              = requests ?c1 @ [(VUpdate, KProject, objKey project)]
          \<and> projects (snd (Project_reconcileDelete project c)) =
              (if \<not> IsZero (DeletionTimestamp stored) \<and> Finalizers stored \<noteq> []
                  \<and> filter (\<lambda>f. f \<noteq> FinalizerName) (Finalizers project) = []
               then removeObj (objKey project) (projects c)
               else replaceObj
                      (project\<lparr>Finalizers :=
                                 filter (\<lambda>f. f \<noteq> FinalizerName) (Finalizers project),
                               Status := Status stored\<rparr>) (projects c))
          \<and> FinalizerName \<notin> set (concat (map Finalizers
                (filter (\<lambda>p. objKey p = objKey project)
                   (projects (snd (Project_reconcileDelete project c))))))"
      by blast
  qed
  from a b c d e show ?thesis by blast
qed

theorem C5_cleanup_spares_foreign_namespaces_witness:
  "lookupObj ([], ''sample-project-stage'') (namespaces cleanupCluster) = Some relabelledNamespace
   \<and> mapIndex (Labels relabelledNamespace) ProjectLabelKey \<noteq> Name deletingProject
   \<and> lookupObj ([], ''sample-project-stage'')
        (namespaces (snd (Project_reconcileDelete deletingProject cleanupCluster)))
        = Some relabelledNamespace
   \<and> lookupObj ([], ''sample-project-dev'')
        (namespaces (snd (Project_reconcileDelete deletingProject cleanupCluster)))
        \<noteq> lookupObj ([], ''sample-project-dev'') (namespaces cleanupCluster)
   \<and> lookupObj ([], ''sample-project-dev'')
        (namespaces (snd (Project_reconcileDelete deletingProject cleanupCluster))) = None
   \<and> fst ([] :: string, ''sample-project-dev'') = []
   \<and> snd ([] :: string, ''sample-project-dev'') \<in> set (CreatedNamespaces (Status deletingProject))
   \<and> (\<exists>owned. lookupObj ([], ''sample-project-dev'') (namespaces cleanupCluster) = Some owned
          \<and> mapIndex (Labels owned) ProjectLabelKey = Name deletingProject)
   \<and> CreatedNamespaces (Status deletingProject)
        = [''sample-project-prod'', ''sample-project-dev'', ''sample-project-stage'']
   \<and> lookupObj ([], ''sample-project-prod'') (namespaces cleanupCluster) = None
   \<and> list_all (\<lambda>f. case f of None \<Rightarrow> True | Some err \<Rightarrow> IsNotFound err) (faults raceCluster)
   \<and> fst (Project_deleteNamespaces deletingProject (CreatedNamespaces (Status deletingProject))
            raceCluster) = None
   \<and> (\<exists>rs. requests (snd (Project_deleteNamespaces deletingProject
                            (CreatedNamespaces (Status deletingProject)) raceCluster))
              = requests raceCluster @ rs
          \<and> filter (\<lambda>rq. fst rq = VGet) rs
              = map (\<lambda>nsName. (VGet, KNamespace, [], nsName))
                  (CreatedNamespaces (Status deletingProject)))
   \<and> requests (snd (Project_deleteNamespaces deletingProject
                      (CreatedNamespaces (Status deletingProject)) raceCluster))
        = [(VGet, KNamespace, [], ''sample-project-prod''),
           (VGet, KNamespace, [], ''sample-project-dev''),
           (VDelete, KNamespace, [], ''sample-project-dev''),
           (VGet, KNamespace, [], ''sample-project-stage'')]
   \<and> list_all (\<lambda>f. f = None) (faults cleanupCluster)
   \<and> ''sample-project-dev'' \<in> set (CreatedNamespaces (Status deletingProject))
   \<and> lookupObj ([], ''sample-project-dev'') (namespaces cleanupCluster) = Some ownedNamespace
   \<and> mapIndex (Labels ownedNamespace) ProjectLabelKey = Name deletingProject
   \<and> lookupObj ([], ''sample-project-dev'')
        (namespaces (snd (Project_reconcileDelete deletingProject cleanupCluster))) = None
   \<and> list_all (\<lambda>f. case f of None \<Rightarrow> True | Some err \<Rightarrow> IsNotFound err) (faults cleanupCluster)
   \<and> lookupObj (objKey deletingProject) (projects cleanupCluster) = Some deletingProject
   \<and> nextFault (faults (snd (Project_deleteNamespaces deletingProject
                               (CreatedNamespaces (Status deletingProject)) cleanupCluster)))
        = None
   \<and> fst (Project_reconcileDelete deletingProject cleanupCluster) = (emptyResult, None)
   \<and> requests (snd (Project_reconcileDelete deletingProject cleanupCluster))
        = requests (snd (Project_deleteNamespaces deletingProject
                           (CreatedNamespaces (Status deletingProject)) cleanupCluster))
          @ [(VUpdate, KProject, objKey deletingProject)]
   \<and> projects (snd (Project_reconcileDelete deletingProject cleanupCluster)) =
        (if \<not> IsZero (DeletionTimestamp deletingProject) \<and> Finalizers deletingProject \<noteq> []
            \<and> filter (\<lambda>f. f \<noteq> FinalizerName) (Finalizers deletingProject) = []
         then removeObj (objKey deletingProject) (projects cleanupCluster)
         else replaceObj
                (deletingProject\<lparr>Finalizers :=
                    filter (\<lambda>f. f \<noteq> FinalizerName) (Finalizers deletingProject),
                  Status := Status deletingProject\<rparr>) (projects cleanupCluster))
   \<and> FinalizerName \<notin> set (concat (map Finalizers
        (filter (\<lambda>p. objKey p = objKey deletingProject)
           (projects (snd (Project_reconcileDelete deletingProject cleanupCluster))))))
   \<and> projects (snd (Project_reconcileDelete deletingProject cleanupCluster)) = []
   \<and> list_all (\<lambda>f. case f of None \<Rightarrow> True | Some err \<Rightarrow> IsNotFound err) (faults guardedCluster)
   \<and> lookupObj (objKey guardedProject) (projects guardedCluster) = Some guardedProject
   \<and> nextFault (faults (snd (Project_deleteNamespaces guardedProject
                               (CreatedNamespaces (Status guardedProject)) guardedCluster)))
        = None
   \<and> fst (Project_reconcileDelete guardedProject guardedCluster) = (emptyResult, None)
   \<and> FinalizerName \<notin> set (concat (map Finalizers
        (filter (\<lambda>p. objKey p = objKey guardedProject)
           (projects (snd (Project_reconcileDelete guardedProject guardedCluster))))))
   \<and> map Finalizers (projects guardedCluster) = [[FinalizerName, ''example.com/audit'']]
   \<and> map Finalizers (projects (snd (Project_reconcileDelete guardedProject guardedCluster)))
        = [[''example.com/audit'']]"
proof -
  note r1 = C5_cleanup_spares_foreign_namespaces
    [where k = "([], ''sample-project-stage'')" and c = cleanupCluster
       and ns = relabelledNamespace and project = deletingProject and stored = deletingProject
       and nsName = "''sample-project-dev''" and labelled = ownedNamespace]
  note r2 = C5_cleanup_spares_foreign_namespaces
    [where k = "([], ''sample-project-dev'')" and c = cleanupCluster
       and ns = relabelledNamespace and project = deletingProject and stored = deletingProject
       and nsName = "''sample-project-dev''" and labelled = ownedNamespace]
  note r3 = C5_cleanup_spares_foreign_namespaces
    [where k = "([], ''sample-project-dev'')" and c = raceCluster
       and ns = relabelledNamespace and project = deletingProject and stored = deletingProject
       and nsName = "''sample-project-dev''" and labelled = ownedNamespace]
  note r4 = C5_cleanup_spares_foreign_namespaces
    [where k = "([], ''sample-project-dev'')" and c = guardedCluster
       and ns = relabelledNamespace and project = guardedProject and stored = guardedProject
       and nsName = "''sample-project-dev''" and labelled = ownedNamespace]
  have h1: "lookupObj ([], ''sample-project-stage'') (namespaces cleanupCluster)
              = Some relabelledNamespace"
    by (simp add: eval_defs project_defs)
  have h2: "mapIndex (Labels relabelledNamespace) ProjectLabelKey \<noteq> Name deletingProject"
    by (simp add: eval_defs project_defs)
  have h3: "lookupObj ([], ''sample-project-dev'')
        (namespaces (snd (Project_reconcileDelete deletingProject cleanupCluster)))
        \<noteq> lookupObj ([], ''sample-project-dev'') (namespaces cleanupCluster)"
    by (simp add: eval_defs application_defs project_defs)
  have h4: "lookupObj ([], ''sample-project-prod'') (namespaces cleanupCluster) = None"
    by (simp add: eval_defs project_defs)
  have h5: "list_all (\<lambda>f. case f of None \<Rightarrow> True | Some err \<Rightarrow> IsNotFound err)
              (faults cleanupCluster)"
    by (simp add: project_defs)
  have h6: "lookupObj (objKey deletingProject) (projects cleanupCluster) = Some deletingProject"
    by (simp add: eval_defs project_defs)
  have h7: "nextFault (faults (snd (Project_deleteNamespaces deletingProject
                               (CreatedNamespaces (Status deletingProject)) cleanupCluster)))
        = None"
    by (simp add: eval_defs application_defs project_defs)
  have h8: "CreatedNamespaces (Status deletingProject)
        = [''sample-project-prod'', ''sample-project-dev'', ''sample-project-stage'']"
    by (simp add: project_defs)
  have h9: "list_all (\<lambda>f. case f of None \<Rightarrow> True | Some err \<Rightarrow> IsNotFound err) (faults raceCluster)"
    by (simp add: project_defs notFound_def)
  have h10: "requests (snd (Project_deleteNamespaces deletingProject
                      (CreatedNamespaces (Status deletingProject)) raceCluster))
        = [(VGet, KNamespace, [], ''sample-project-prod''),
           (VGet, KNamespace, [], ''sample-project-dev''),
           (VDelete, KNamespace, [], ''sample-project-dev''),
           (VGet, KNamespace, [], ''sample-project-stage'')]"
    by (simp add: eval_defs application_defs project_defs)
  have h11: "list_all (\<lambda>f. f = None) (faults cleanupCluster)"
    by (simp add: project_defs)
  have h12: "''sample-project-dev'' \<in> set (CreatedNamespaces (Status deletingProject))"
    by (simp add: project_defs)
  have h13: "lookupObj ([], ''sample-project-dev'') (namespaces cleanupCluster) = Some ownedNamespace"
    by (simp add: eval_defs project_defs)
  have h14: "mapIndex (Labels ownedNamespace) ProjectLabelKey = Name deletingProject"
    by (simp add: eval_defs project_defs)
  have h15: "projects (snd (Project_reconcileDelete deletingProject cleanupCluster)) = []"
    by (simp add: eval_defs application_defs project_defs)
  have h16: "list_all (\<lambda>f. case f of None \<Rightarrow> True | Some err \<Rightarrow> IsNotFound err)
               (faults guardedCluster)"
    by (simp add: project_defs)
  have h17: "lookupObj (objKey guardedProject) (projects guardedCluster) = Some guardedProject"
    by (simp add: eval_defs project_defs)
  have h18: "nextFault (faults (snd (Project_deleteNamespaces guardedProject
                               (CreatedNamespaces (Status guardedProject)) guardedCluster)))
        = None"
    by (simp add: eval_defs application_defs project_defs)
  have h19: "map Finalizers (projects guardedCluster) = [[FinalizerName, ''example.com/audit'']]"
    by (simp add: project_defs)
  have h20: "map Finalizers (projects (snd (Project_reconcileDelete guardedProject guardedCluster)))
        = [[''example.com/audit'']]"
    by (simp add: eval_defs application_defs project_defs)
  note a = r1 [THEN conjunct1, THEN mp, OF conjI [OF h1 h2]]
  note b = r2 [THEN conjunct2, THEN conjunct1, THEN mp, OF h3]
  note c = r3 [THEN conjunct2, THEN conjunct2, THEN conjunct1, THEN mp, OF h9]
  note d = r1 [THEN conjunct2, THEN conjunct2, THEN conjunct2, THEN conjunct1, THEN mp,
               OF conjI [OF h11 conjI [OF h12 conjI [OF h13 h14]]]]
  note e = r1 [THEN conjunct2, THEN conjunct2, THEN conjunct2, THEN conjunct2, THEN mp,
               OF conjI [OF h5 conjI [OF h6 h7]]]
  note g = r4 [THEN conjunct2, THEN conjunct2, THEN conjunct2, THEN conjunct2, THEN mp,
               OF conjI [OF h16 conjI [OF h17 h18]]]
  show ?thesis
    by (intro conjI h1 h2 a h3 b [THEN conjunct1] b [THEN conjunct2, THEN conjunct1]
        b [THEN conjunct2, THEN conjunct2, THEN conjunct1]
        b [THEN conjunct2, THEN conjunct2, THEN conjunct2]
        h8 h4 h9 c [THEN conjunct1] c [THEN conjunct2] h10
        h11 h12 h13 h14 d
        h5 h6 h7 e [THEN conjunct1] e [THEN conjunct2, THEN conjunct1]
        e [THEN conjunct2, THEN conjunct2, THEN conjunct1]
        e [THEN conjunct2, THEN conjunct2, THEN conjunct2] h15
        h16 h17 h18 g [THEN conjunct1] g [THEN conjunct2, THEN conjunct2, THEN conjunct2]
        h19 h20)
qed

subsection \<open>What records the namespace list\<close>

lemma reconcileNamespace_projects:
  "projects (snd (Project_reconcileNamespace project envName nsName c)) = projects c"
  by (auto simp: Project_reconcileNamespace_def Get_def Create_def Update_def request_def Let_def
      split: option.splits)

lemma reconcileResourceQuota_projects:
  "projects (snd (Project_reconcileResourceQuota project envName nsName quotaSpec c)) = projects c"
  by (auto simp: Project_reconcileResourceQuota_def Get_def Create_def Update_def request_def Let_def
      split: option.splits)

lemma reconcileLimitRange_projects:
  "projects (snd (Project_reconcileLimitRange project envName nsName limitSpec c)) = projects c"
  by (auto simp: Project_reconcileLimitRange_def Get_def Create_def Update_def request_def Let_def
      split: option.splits)

lemma setFailedStatus_recorded:
  assumes "lookupObj (objKey project) (projects c) = Some project"
  shows "map_option (\<lambda>p. CreatedNamespaces (Status p))
           (lookupObj k (projects (Project_setFailedStatus project message c)))
         = map_option (\<lambda>p. CreatedNamespaces (Status p)) (lookupObj k (projects c))"
  using assms
  by (auto simp: Project_setFailedStatus_def StatusUpdate_def request_def Let_def
      lookupObj_replaceObj split: option.splits)

lemma reconcileEnvironments_recorded:
  assumes "lookupObj (objKey project) (projects c) = Some project"
  shows "map_option (\<lambda>p. CreatedNamespaces (Status p))
           (lookupObj k (projects (snd (Project_reconcileEnvironments project envs created c))))
         = map_option (\<lambda>p. CreatedNamespaces (Status p)) (lookupObj k (projects c))
       \<and> (case fst (Project_reconcileEnvironments project envs created c) of
             Inl early \<Rightarrow> True
           | Inr l \<Rightarrow> projects (snd (Project_reconcileEnvironments project envs created c))
                       = projects c)"
  using assms
proof (induction envs arbitrary: created c)
  case Nil
  then show ?case by simp
next
  case (Cons env rest)
  obtain envName envSpec where env: "env = (envName, envSpec)" by (cases env)
  define ns where "ns = (if envNamespace envSpec = [] then Name project @ ''-'' @ envName
                          else envNamespace envSpec)"
  obtain e1 c1 where r1: "Project_reconcileNamespace project envName ns c = (e1, c1)"
    by (cases "Project_reconcileNamespace project envName ns c")
  have p1: "projects c1 = projects c"
    using reconcileNamespace_projects [of project envName ns c] by (simp add: r1)
  obtain e2 c2 where r2: "(case envResourceQuota envSpec of None \<Rightarrow> (None, c1)
      | Some quotaSpec \<Rightarrow> Project_reconcileResourceQuota project envName ns quotaSpec c1)
      = (e2, c2)"
    by (cases "(case envResourceQuota envSpec of None \<Rightarrow> (None, c1)
      | Some quotaSpec \<Rightarrow> Project_reconcileResourceQuota project envName ns quotaSpec c1)")
  have p2: "projects c2 = projects c"
    using r2 p1 reconcileResourceQuota_projects [of project envName ns _ c1]
    by (auto split: option.splits simp: prod_eq_iff)
  obtain e3 c3 where r3: "(case envLimitRange envSpec of None \<Rightarrow> (None, c2)
      | Some limitSpec \<Rightarrow> Project_reconcileLimitRange project envName ns limitSpec c2)
      = (e3, c3)"
    by (cases "(case envLimitRange envSpec of None \<Rightarrow> (None, c2)
      | Some limitSpec \<Rightarrow> Project_reconcileLimitRange project envName ns limitSpec c2)")
  have p3: "projects c3 = projects c"
    using r3 p2 reconcileLimitRange_projects [of project envName ns _ c2]
    by (auto split: option.splits simp: prod_eq_iff)
  have step: "Project_reconcileEnvironments project (env # rest) created c =
     (case e1 of
        Some err \<Rightarrow>
          (Inl (emptyResult, Some err),
           Project_setFailedStatus project
             (''Failed to create namespace '' @ ns @ '': '' @ errorString err) c1)
      | None \<Rightarrow>
          (case e2 of
             Some err \<Rightarrow>
               (Inl (emptyResult, Some err),
                Project_setFailedStatus project
                  (''Failed to create ResourceQuota in '' @ ns @ '': '' @ errorString err) c2)
           | None \<Rightarrow>
               (case e3 of
                  Some err \<Rightarrow>
                    (Inl (emptyResult, Some err),
                     Project_setFailedStatus project
                       (''Failed to create LimitRange in '' @ ns @ '': '' @ errorString err) c3)
                | None \<Rightarrow> Project_reconcileEnvironments project rest (created @ [ns]) c3)))"
    unfolding env Project_reconcileEnvironments.simps Let_def ns_def [symmetric] r1
    by (simp add: r2 r3 split: option.splits)
  note st = Cons.prems
  have st3: "lookupObj (objKey project) (projects c3) = Some project"
    using st p3 by simp
  show ?case
    unfolding step
    using st p1 p2 p3 Cons.IH [OF st3, of "created @ [ns]"]
    by (auto simp: setFailedStatus_recorded split: option.splits sum.splits)
qed

lemma Get_state: "snd (Get kind sel k c) = served (VGet, kind, k) c"
  by (simp add: Get_def request_def split: option.splits)

lemma Project_Reconcile_recorded:
  assumes "fst (Project_Reconcile req c) \<noteq> (emptyResult, None)"
  shows "map_option (\<lambda>p. CreatedNamespaces (Status p))
           (lookupObj k (projects (snd (Project_Reconcile req c))))
         = map_option (\<lambda>p. CreatedNamespaces (Status p)) (lookupObj k (projects c))"
proof (cases "Get KProject projects req c")
  case (Pair r c1)
  show ?thesis
  proof (cases r)
    case (Inl err)
    from Pair have "c1 = served (VGet, KProject, req) c"
      using Get_state [of KProject projects req c] by simp
    with Pair Inl show ?thesis
      by (simp add: Project_Reconcile_def)
  next
    case (Inr project)
    with Pair have st: "lookupObj req (projects c) = Some project"
      and c1: "c1 = served (VGet, KProject, req) c"
      by (simp_all add: Get_Inr_iff)
    from st have k: "objKey project = req" by (rule lookupObj_key)
    have st1: "lookupObj (objKey project) (projects c1) = Some project"
      using st k by (simp add: c1)
    have p1: "projects c1 = projects c" by (simp add: c1)
    consider (del) "\<not> IsZero (DeletionTimestamp project)"
      | (fin) "IsZero (DeletionTimestamp project)" "\<not> ContainsFinalizer project FinalizerName"
      | (ini) "IsZero (DeletionTimestamp project)" "ContainsFinalizer project FinalizerName"
          "Phase (Status project) = []"
      | (main) "IsZero (DeletionTimestamp project)" "ContainsFinalizer project FinalizerName"
          "Phase (Status project) \<noteq> []"
      by blast
    then show ?thesis
    proof cases
      case del
      obtain e cd where loop: "Project_deleteNamespaces project
          (CreatedNamespaces (Status project)) c1 = (e, cd)"
        by (cases "Project_deleteNamespaces project (CreatedNamespaces (Status project)) c1")
      have pd: "projects cd = projects c"
        using deleteNamespaces_projects [of project "CreatedNamespaces (Status project)" c1]
        by (simp add: loop p1)
      show ?thesis
        using assms Pair Inr del loop pd st k
        by (auto simp: Project_Reconcile_def Project_reconcileDelete_def Update_def request_def
            lookupObj_replaceObj lookupObj_removeObj RemoveFinalizer_def objKey_def
            split: option.splits if_splits)
    next
      case fin
      then show ?thesis
        using Pair Inr st k p1
        by (auto simp: Project_Reconcile_def Update_def request_def c1
            lookupObj_replaceObj AddFinalizer_def objKey_def split: option.splits)
    next
      case ini
      then show ?thesis
        using Pair Inr st k p1
        by (auto simp: Project_Reconcile_def StatusUpdate_def request_def c1
            lookupObj_replaceObj split: option.splits)
    next
      case main
      obtain r2 c2 where loop: "Project_reconcileEnvironments project
          (Environments (Spec project)) [] c1 = (r2, c2)"
        by (cases "Project_reconcileEnvironments project (Environments (Spec project)) [] c1")
      note rec = reconcileEnvironments_recorded [OF st1, of k "Environments (Spec project)" "[]"]
      show ?thesis
      proof (cases r2)
        case (Inl early)
        then show ?thesis
          using Pair Inr main loop rec p1
          by (simp add: Project_Reconcile_def)
      next
        case (Inr created)
        with loop rec have p2: "projects c2 = projects c" by (simp add: p1)
        show ?thesis
          using assms Pair \<open>r = Inr project\<close> main loop Inr p2
          by (auto simp: Project_Reconcile_def Let_def StatusUpdate_def request_def
              split: option.splits)
      qed
    qed
  qed
qed

text \<open>
  C8. When the recorded list of a Project is empty, its deletion cleanup is the update
  that writes the Project without the finalizer and nothing else: it issues that one
  request and leaves every namespace in place. When the Project is stored and the
  update goes through, the cleanup returns \<^verbatim>\<open>(Result{}, nil)\<close> and no stored Project of
  that name carries the finalizer any more: the store drops the Project if it is under
  deletion and has no finalizer left, and otherwise keeps it without this finalizer.
  The list is recorded by the last status write of a reconcile that returns
  \<^verbatim>\<open>(Result{}, nil)\<close> and by nothing else: a Project reconcile with any other outcome
  leaves the recorded list of every stored Project as it was, also when it has created
  namespaces.
\<close>

theorem C8_empty_list_deletes_nothing:
  "(CreatedNamespaces (Status project) = []
      \<longrightarrow> requests (snd (Project_reconcileDelete project c))
            = requests c @ [(VUpdate, KProject, objKey project)]
        \<and> namespaces (snd (Project_reconcileDelete project c)) = namespaces c
        \<and> Project_reconcileDelete project c =
            (case Update KProject projects projects_update
                    (RemoveFinalizer project FinalizerName) c of
               (Some err, c2) \<Rightarrow> ((emptyResult, Some err), c2)
             | (None, c2) \<Rightarrow> ((emptyResult, None), c2))
        \<and> RemoveFinalizer project FinalizerName =
            project\<lparr>Finalizers := filter (\<lambda>f. f \<noteq> FinalizerName) (Finalizers project)\<rparr>)
   \<and> (CreatedNamespaces (Status project) = []
       \<and> lookupObj (objKey project) (projects c) = Some stored
       \<and> nextFault (faults c) = None
      \<longrightarrow> fst (Project_reconcileDelete project c) = (emptyResult, None)
        \<and> projects (snd (Project_reconcileDelete project c)) =
            (if \<not> IsZero (DeletionTimestamp stored) \<and> Finalizers stored \<noteq> []
                \<and> filter (\<lambda>f. f \<noteq> FinalizerName) (Finalizers project) = []
             then removeObj (objKey project) (projects c)
             else replaceObj
                    (project\<lparr>Finalizers :=
                               filter (\<lambda>f. f \<noteq> FinalizerName) (Finalizers project),
                             Status := Status stored\<rparr>) (projects c))
        \<and> FinalizerName \<notin> set (concat (map Finalizers
              (filter (\<lambda>p. objKey p = objKey project)
                 (projects (snd (Project_reconcileDelete project c)))))))
   \<and> (fst (Project_Reconcile req c0) \<noteq> (emptyResult, None)
      \<longrightarrow> map_option (\<lambda>p. CreatedNamespaces (Status p))
            (lookupObj k (projects (snd (Project_Reconcile req c0))))
          = map_option (\<lambda>p. CreatedNamespaces (Status p)) (lookupObj k (projects c0)))"
proof (intro conjI impI)
  assume "CreatedNamespaces (Status project) = []"
  then show "requests (snd (Project_reconcileDelete project c))
            = requests c @ [(VUpdate, KProject, objKey project)]"
    and "namespaces (snd (Project_reconcileDelete project c)) = namespaces c"
    and "Project_reconcileDelete project c =
            (case Update KProject projects projects_update
                    (RemoveFinalizer project FinalizerName) c of
               (Some err, c2) \<Rightarrow> ((emptyResult, Some err), c2)
             | (None, c2) \<Rightarrow> ((emptyResult, None), c2))"
    by (simp_all add: Project_reconcileDelete_def Update_def request_def RemoveFinalizer_def
        objKey_def split: option.splits)
next
  show "RemoveFinalizer project FinalizerName =
            project\<lparr>Finalizers := filter (\<lambda>f. f \<noteq> FinalizerName) (Finalizers project)\<rparr>"
    by (simp add: RemoveFinalizer_def)
next
  assume h: "CreatedNamespaces (Status project) = []
       \<and> lookupObj (objKey project) (projects c) = Some stored
       \<and> nextFault (faults c) = None"
  then have loop: "Project_deleteNamespaces project (CreatedNamespaces (Status project)) c
                     = (None, c)"
    by simp
  from h have st: "lookupObj (objKey project) (projects c) = Some stored"
    and nf: "nextFault (faults c) = None"
    by simp_all
  note r = reconcileDelete_finalizer [OF loop st nf]
  from r show "fst (Project_reconcileDelete project c) = (emptyResult, None)"
    and "projects (snd (Project_reconcileDelete project c)) =
            (if \<not> IsZero (DeletionTimestamp stored) \<and> Finalizers stored \<noteq> []
                \<and> filter (\<lambda>f. f \<noteq> FinalizerName) (Finalizers project) = []
             then removeObj (objKey project) (projects c)
             else replaceObj
                    (project\<lparr>Finalizers :=
                               filter (\<lambda>f. f \<noteq> FinalizerName) (Finalizers project),
                             Status := Status stored\<rparr>) (projects c))"
    by simp_all
  show "FinalizerName \<notin> set (concat (map Finalizers
              (filter (\<lambda>p. objKey p = objKey project)
                 (projects (snd (Project_reconcileDelete project c))))))"
    unfolding r(3) by (rule finalizer_gone)
next
  assume "fst (Project_Reconcile req c0) \<noteq> (emptyResult, None)"
  then show "map_option (\<lambda>p. CreatedNamespaces (Status p))
            (lookupObj k (projects (snd (Project_Reconcile req c0))))
          = map_option (\<lambda>p. CreatedNamespaces (Status p)) (lookupObj k (projects c0))"
    by (rule Project_Reconcile_recorded)
qed

theorem C8_empty_list_deletes_nothing_witness:
  "fst (Project_Reconcile (''kalypso-system'', ''sample-project'') quotaFailureCluster)
     \<noteq> (emptyResult, None)
   \<and> map_option (\<lambda>p. CreatedNamespaces (Status p))
        (lookupObj (''kalypso-system'', ''sample-project'')
           (projects (snd (Project_Reconcile (''kalypso-system'', ''sample-project'')
                             quotaFailureCluster))))
       = map_option (\<lambda>p. CreatedNamespaces (Status p))
           (lookupObj (''kalypso-system'', ''sample-project'') (projects quotaFailureCluster))
   \<and> map Name (namespaces quotaFailureCluster) = []
   \<and> map Name (namespaces abandonedCluster) = [''sample-project-dev'']
   \<and> CreatedNamespaces (Status abandonedProject) = []
   \<and> requests (snd (Project_reconcileDelete abandonedProject abandonedCluster))
        = requests abandonedCluster @ [(VUpdate, KProject, objKey abandonedProject)]
   \<and> namespaces (snd (Project_reconcileDelete abandonedProject abandonedCluster))
        = namespaces abandonedCluster
   \<and> Project_reconcileDelete abandonedProject abandonedCluster =
        (case Update KProject projects projects_update
                (RemoveFinalizer abandonedProject FinalizerName) abandonedCluster of
           (Some err, c2) \<Rightarrow> ((emptyResult, Some err), c2)
         | (None, c2) \<Rightarrow> ((emptyResult, None), c2))
   \<and> RemoveFinalizer abandonedProject FinalizerName =
        abandonedProject\<lparr>Finalizers :=
          filter (\<lambda>f. f \<noteq> FinalizerName) (Finalizers abandonedProject)\<rparr>
   \<and> lookupObj (objKey abandonedProject) (projects abandonedCluster) = Some abandonedProject
   \<and> nextFault (faults abandonedCluster) = None
   \<and> fst (Project_reconcileDelete abandonedProject abandonedCluster) = (emptyResult, None)
   \<and> projects (snd (Project_reconcileDelete abandonedProject abandonedCluster)) =
        (if \<not> IsZero (DeletionTimestamp abandonedProject) \<and> Finalizers abandonedProject \<noteq> []
            \<and> filter (\<lambda>f. f \<noteq> FinalizerName) (Finalizers abandonedProject) = []
         then removeObj (objKey abandonedProject) (projects abandonedCluster)
         else replaceObj
                (abandonedProject\<lparr>Finalizers :=
                    filter (\<lambda>f. f \<noteq> FinalizerName) (Finalizers abandonedProject),
                  Status := Status abandonedProject\<rparr>) (projects abandonedCluster))
   \<and> FinalizerName \<notin> set (concat (map Finalizers
        (filter (\<lambda>p. objKey p = objKey abandonedProject)
           (projects (snd (Project_reconcileDelete abandonedProject abandonedCluster))))))
   \<and> Finalizers abandonedProject = [FinalizerName]
   \<and> Finalizers (RemoveFinalizer abandonedProject FinalizerName) = []
   \<and> projects (snd (Project_reconcileDelete abandonedProject abandonedCluster)) = []"
proof -
  have h1: "fst (Project_Reconcile (''kalypso-system'', ''sample-project'') quotaFailureCluster)
     \<noteq> (emptyResult, None)"
    by (simp add: eval_defs application_defs project_defs)
  have h2: "map Name (namespaces abandonedCluster) = [''sample-project-dev'']"
    by (simp add: eval_defs application_defs project_defs)
  have h3: "CreatedNamespaces (Status abandonedProject) = []"
    by (simp add: eval_defs application_defs project_defs)
  have h4: "map Name (namespaces quotaFailureCluster) = []"
    by (simp add: project_defs)
  have h5: "lookupObj (objKey abandonedProject) (projects abandonedCluster) = Some abandonedProject"
    by (simp add: abandonedCluster_def lookupObj_def)
  have h6: "nextFault (faults abandonedCluster) = None"
    by (simp add: abandonedCluster_def nextFault_def)
  have h7: "Finalizers abandonedProject = [FinalizerName]"
    by (simp add: eval_defs application_defs project_defs)
  have h8: "Finalizers (RemoveFinalizer abandonedProject FinalizerName) = []"
    by (simp add: RemoveFinalizer_def h7)
  have h9: "projects (snd (Project_reconcileDelete abandonedProject abandonedCluster)) = []"
    by (simp add: eval_defs application_defs project_defs)
  note r = C8_empty_list_deletes_nothing
    [where project = abandonedProject and c = abandonedCluster and stored = abandonedProject
       and req = "(''kalypso-system'', ''sample-project'')" and ?c0.0 = quotaFailureCluster
       and k = "(''kalypso-system'', ''sample-project'')"]
  note a = r [THEN conjunct1, THEN mp, OF h3]
  note b = r [THEN conjunct2, THEN conjunct1, THEN mp, OF conjI [OF h3 conjI [OF h5 h6]]]
  note c = r [THEN conjunct2, THEN conjunct2, THEN mp, OF h1]
  show ?thesis
    by (intro conjI h1 c h4 h2 h3 a [THEN conjunct1] a [THEN conjunct2, THEN conjunct1]
        a [THEN conjunct2, THEN conjunct2, THEN conjunct1]
        a [THEN conjunct2, THEN conjunct2, THEN conjunct2]
        h5 h6 b [THEN conjunct1] b [THEN conjunct2, THEN conjunct1]
        b [THEN conjunct2, THEN conjunct2] h7 h8 h9)
qed

section \<open>Applying an upsert twice\<close>







lemma served_nofault: "faults c = [] \<Longrightarrow> nextFault (faults c) = None \<and> faults (served rq c) = []"
  by (simp add: nextFault_def)







subsection \<open>CreateOrUpdate twice\<close>













end
